theory Spec2Isabelle
  imports Complex_Main
begin

section \<open>JavaScript arrays and the console\<close>

text \<open>
  A JavaScript array is a list of optional values: \<open>None\<close> is \<open>undefined\<close>. Reading
  beyond the end gives \<open>undefined\<close>; writing at or beyond the end extends the array, the
  gap filled with \<open>undefined\<close>.
\<close>

definition js_get :: "'a option list \<Rightarrow> nat \<Rightarrow> 'a option" where
  "js_get xs i = (if i < length xs then xs ! i else None)"

definition js_set :: "'a option list \<Rightarrow> nat \<Rightarrow> 'a option \<Rightarrow> 'a option list" where
  "js_set xs i v =
     (if i < length xs then xs[i := v] else xs @ replicate (i - length xs) None @ [v])"

text \<open>One argument of a \<open>console.log\<close> call; a console line is the list of its arguments.\<close>

datatype logged = Str string | Num nat

type_synonym console_line = "logged list"

section \<open>The matrix stack (class Stack of Hierarchy.js)\<close>

text \<open>
  \<open>elements\<close> is the array holding the stack, \<open>t\<close> the number of elements in use
  (the source only ever increments it from \<open>0\<close> and decrements it when it is positive,
  so it is a natural number).
\<close>

record 'a Stack =
  elements :: "'a option list"
  t :: nat

definition Stack_new :: "'a Stack" where
  "Stack_new = \<lparr>elements = [], t = 0\<rparr>"

text \<open>\<open>push(m) { this.elements[this.t++] = m; }\<close>\<close>

definition push :: "'a \<Rightarrow> 'a Stack \<Rightarrow> 'a Stack" where
  "push m s = \<lparr>elements = js_set (elements s) (t s) (Some m), t = Suc (t s)\<rparr>"

text \<open>
  \<open>top()\<close> returns the value (\<open>None\<close> for \<open>undefined\<close>) and the lines it writes to
  the console; it does not change the stack.
\<close>

definition top_stack :: "'a Stack \<Rightarrow> 'a option \<times> console_line list" where
  "top_stack s =
     (if t s \<le> 0
      then (None, [[Str ''top = '', Num (t s)], [Str ''Warning: stack underflow'']])
      else (js_get (elements s) (t s - 1), []))"

text \<open>\<open>pop()\<close> returns the value, the stack afterwards and the lines written to the console.\<close>

definition pop :: "'a Stack \<Rightarrow> 'a option \<times> 'a Stack \<times> console_line list" where
  "pop s =
     (if t s \<le> 0
      then (None, s, [[Str ''Warning: stack underflow'']])
      else (let t' = t s - 1;
                temp = js_get (elements s) t'
            in (temp, \<lparr>elements = js_set (elements s) t' None, t = t'\<rparr>, [])))"

definition isEmpty :: "'a Stack \<Rightarrow> bool" where
  "isEmpty s = (t s \<le> 0)"

text \<open>A sequence of stack calls, run in order on a stack.\<close>

datatype 'a stack_call = Call_push 'a | Call_pop

fun run_calls :: "'a stack_call list \<Rightarrow> 'a Stack \<Rightarrow> 'a Stack" where
  "run_calls [] s = s"
| "run_calls (Call_push m # cs) s = run_calls cs (push m s)"
| "run_calls (Call_pop # cs) s = run_calls cs (fst (snd (pop s)))"

text \<open>
  \<open>balanced d cs\<close>: starting at depth \<open>d\<close>, no pop of \<open>cs\<close> meets an empty stack and the
  depth is \<open>0\<close> at the end (every push has its matching pop).
\<close>

fun balanced :: "nat \<Rightarrow> 'a stack_call list \<Rightarrow> bool" where
  "balanced d [] = (d = 0)"
| "balanced d (Call_push m # cs) = balanced (Suc d) cs"
| "balanced d (Call_pop # cs) = (case d of 0 \<Rightarrow> False | Suc d' \<Rightarrow> balanced d' cs)"

text \<open>
  \<open>stack_holds s xs\<close>: the stack \<open>s\<close> holds the values \<open>xs\<close>, bottom first: its depth
  is their number and its array has them at the first places.
\<close>

definition stack_holds :: "'a Stack \<Rightarrow> 'a list \<Rightarrow> bool" where
  "stack_holds s xs =
     (t s = length xs \<and> map (js_get (elements s)) [0..<length xs] = map Some xs)"

section \<open>Matrix4\<close>

text \<open>
  Modelled from the spec: the class \<open>Matrix4\<close> (cuon-matrix.js, named in the header of
  Hierarchy.js) is not among the sources. The spec describes it as a 4x4 homogeneous
  transform with compose (\<open>multiply\<close>) and the builders translate, rotate and scale, assumed
  correct. It is modelled as such over the reals (JavaScript numbers without rounding), in
  the library's column-major layout: a matrix is its four columns, \<open>elements[4 * j + i]\<close>
  being component \<open>i\<close> of column \<open>j\<close>. Angles are in degrees.
\<close>

type_synonym vec4 = "real \<times> real \<times> real \<times> real"

type_synonym mat4 = "vec4 \<times> vec4 \<times> vec4 \<times> vec4"

fun vscale :: "real \<Rightarrow> vec4 \<Rightarrow> vec4" where
  "vscale k (a, b, c, d) = (k * a, k * b, k * c, k * d)"

fun vadd :: "vec4 \<Rightarrow> vec4 \<Rightarrow> vec4" where
  "vadd (a, b, c, d) (a', b', c', d') = (a + a', b + b', c + c', d + d')"

text \<open>The matrix applied to a vector: the combination of its columns.\<close>

fun m4_apply :: "mat4 \<Rightarrow> vec4 \<Rightarrow> vec4" where
  "m4_apply (c0, c1, c2, c3) (x, y, z, w) =
     vadd (vadd (vadd (vscale x c0) (vscale y c1)) (vscale z c2)) (vscale w c3)"

definition m4_identity :: mat4 where
  "m4_identity = ((1, 0, 0, 0), (0, 1, 0, 0), (0, 0, 1, 0), (0, 0, 0, 1))"

text \<open>\<open>a.multiply(b)\<close> leaves \<open>a * b\<close> in \<open>a\<close>.\<close>

fun m4_multiply :: "mat4 \<Rightarrow> mat4 \<Rightarrow> mat4" where
  "m4_multiply a (b0, b1, b2, b3) = (m4_apply a b0, m4_apply a b1, m4_apply a b2, m4_apply a b3)"

definition m4_setTranslate :: "real \<Rightarrow> real \<Rightarrow> real \<Rightarrow> mat4" where
  "m4_setTranslate x y z = ((1, 0, 0, 0), (0, 1, 0, 0), (0, 0, 1, 0), (x, y, z, 1))"

definition m4_setScale :: "real \<Rightarrow> real \<Rightarrow> real \<Rightarrow> mat4" where
  "m4_setScale x y z = ((x, 0, 0, 0), (0, y, 0, 0), (0, 0, z, 0), (0, 0, 0, 1))"

text \<open>
  The rotation by \<open>angle\<close> degrees about the axis \<open>(x, y, z)\<close>: the three coordinate axes
  each have their own branch, any other axis is normalised first.
\<close>

definition m4_setRotate :: "real \<Rightarrow> real \<Rightarrow> real \<Rightarrow> real \<Rightarrow> mat4" where
  "m4_setRotate angle x y z =
     (let a = pi * angle / 180; s = sin a; c = cos a
      in if x \<noteq> 0 \<and> y = 0 \<and> z = 0 then
           (let s = (if x < 0 then - s else s)
            in ((1, 0, 0, 0), (0, c, s, 0), (0, - s, c, 0), (0, 0, 0, 1)))
         else if x = 0 \<and> y \<noteq> 0 \<and> z = 0 then
           (let s = (if y < 0 then - s else s)
            in ((c, 0, - s, 0), (0, 1, 0, 0), (s, 0, c, 0), (0, 0, 0, 1)))
         else if x = 0 \<and> y = 0 \<and> z \<noteq> 0 then
           (let s = (if z < 0 then - s else s)
            in ((c, s, 0, 0), (- s, c, 0, 0), (0, 0, 1, 0), (0, 0, 0, 1)))
         else
           (let len = sqrt (x * x + y * y + z * z);
                rlen = (if len \<noteq> 1 then 1 / len else 1);
                x = x * rlen; y = y * rlen; z = z * rlen;
                nc = 1 - c;
                xy = x * y; yz = y * z; zx = z * x;
                xs = x * s; ys = y * s; zs = z * s
            in ((x * x * nc + c, xy * nc + zs, zx * nc - ys, 0),
                (xy * nc - zs, y * y * nc + c, yz * nc + xs, 0),
                (zx * nc + ys, yz * nc - xs, z * z * nc + c, 0),
                (0, 0, 0, 1))))"

text \<open>\<open>m.rotate(angle, x, y, z)\<close> multiplies \<open>m\<close> from the right by the rotation.\<close>

definition m4_rotate :: "mat4 \<Rightarrow> real \<Rightarrow> real \<Rightarrow> real \<Rightarrow> real \<Rightarrow> mat4" where
  "m4_rotate m angle x y z = m4_multiply m (m4_setRotate angle x y z)"

text \<open>\<open>m.translate(x, y, z)\<close> adds \<open>x * c0 + y * c1 + z * c2\<close> to the last column.\<close>

fun m4_translate :: "mat4 \<Rightarrow> real \<Rightarrow> real \<Rightarrow> real \<Rightarrow> mat4" where
  "m4_translate (c0, c1, c2, c3) x y z =
     (c0, c1, c2, vadd c3 (vadd (vadd (vscale x c0) (vscale y c1)) (vscale z c2)))"

text \<open>\<open>m.scale(x, y, z)\<close> multiplies the first three columns by \<open>x\<close>, \<open>y\<close> and \<open>z\<close>.\<close>

fun m4_scale :: "mat4 \<Rightarrow> real \<Rightarrow> real \<Rightarrow> real \<Rightarrow> mat4" where
  "m4_scale (c0, c1, c2, c3) x y z = (vscale x c0, vscale y c1, vscale z c2, c3)"

subsection \<open>Matrix objects\<close>

text \<open>
  The methods of \<open>Matrix4\<close> change the object they are called on, and the program keeps
  references to matrices in variables and on the stack. So matrices live in a heap, a list
  of matrix values, and a reference is an index into it. \<open>new Matrix4(src)\<close> appends a
  cell: a copy of \<open>src\<close>, or the identity when \<open>src\<close> is missing or \<open>undefined\<close>. Each
  method returns \<open>this\<close>; the model returns the heap after the call.
\<close>

type_synonym ref = nat

definition Matrix4_new :: "ref option \<Rightarrow> mat4 list \<Rightarrow> ref \<times> mat4 list" where
  "Matrix4_new opt_src h =
     (length h, h @ [case opt_src of None \<Rightarrow> m4_identity | Some src \<Rightarrow> h ! src])"

definition Matrix4_multiply :: "ref \<Rightarrow> ref \<Rightarrow> mat4 list \<Rightarrow> mat4 list" where
  "Matrix4_multiply this other h = h[this := m4_multiply (h ! this) (h ! other)]"

definition Matrix4_setTranslate :: "ref \<Rightarrow> real \<Rightarrow> real \<Rightarrow> real \<Rightarrow> mat4 list \<Rightarrow> mat4 list" where
  "Matrix4_setTranslate this x y z h = h[this := m4_setTranslate x y z]"

definition Matrix4_rotate :: "ref \<Rightarrow> real \<Rightarrow> real \<Rightarrow> real \<Rightarrow> real \<Rightarrow> mat4 list \<Rightarrow> mat4 list" where
  "Matrix4_rotate this angle x y z h = h[this := m4_rotate (h ! this) angle x y z]"

definition Matrix4_translate :: "ref \<Rightarrow> real \<Rightarrow> real \<Rightarrow> real \<Rightarrow> mat4 list \<Rightarrow> mat4 list" where
  "Matrix4_translate this x y z h = h[this := m4_translate (h ! this) x y z]"

definition Matrix4_scale :: "ref \<Rightarrow> real \<Rightarrow> real \<Rightarrow> real \<Rightarrow> mat4 list \<Rightarrow> mat4 list" where
  "Matrix4_scale this x y z h = h[this := m4_scale (h ! this) x y z]"

section \<open>The global state of Hierarchy.js\<close>

text \<open>
  The numbers of the program (angles, speed, scale factors) are reals: JavaScript's
  arithmetic without rounding.
\<close>

record joint_angles =
  turbine :: real
  base :: real
  generator :: real
  rotor :: real
  blade :: real
  shoulder :: real
  arm :: real
  hand :: real

text \<open>
  What the program does to the world outside is recorded as a list of events: every call of
  \<open>push\<close> with the reference pushed, every call of \<open>pop\<close> with the reference returned,
  and every cube drawn by \<open>renderCube\<close>, with the reference on top of the stack, the
  reference of the local matrix and the value uploaded to the shader as its \<open>model\<close> matrix.
\<close>

datatype event = Push ref | Pop "ref option" | Render "ref option" ref mat4

fun is_Push :: "event \<Rightarrow> bool" where
  "is_Push (Push r) = True"
| "is_Push e = False"

fun is_Pop :: "event \<Rightarrow> bool" where
  "is_Pop (Pop r) = True"
| "is_Pop e = False"

text \<open>
  \<open>getAttribLocation\<close> is what \<open>gl.getAttribLocation(lightingShader, name)\<close> returns
  for the compiled shader: the location of the attribute, or \<open>-1\<close> when the shader has
  no such attribute. The program never changes it after the shader is compiled.
\<close>

record state =
  joint :: joint_angles
  rotDir :: bool
  rotSpeed :: real
  rotAnim :: bool
  heap :: "mat4 list"
  console :: "console_line list"
  events :: "event list"
  getAttribLocation :: "string \<Rightarrow> int"

text \<open>
  The global matrix variables are assigned once, in this order, and never again, so each is
  a fixed reference. (\<open>viewMatrix\<close> and \<open>projection\<close> only go to the shader and are left
  out.)
\<close>

definition turbineMatrix :: ref where "turbineMatrix = 0"
definition baseMatrix :: ref where "baseMatrix = 1"
definition generatorMatrix :: ref where "generatorMatrix = 2"
definition rotorMatrix :: ref where "rotorMatrix = 3"
definition bladeMatrix :: ref where "bladeMatrix = 4"
definition turbineMatrixLocal :: ref where "turbineMatrixLocal = 5"
definition baseMatrixLocal :: ref where "baseMatrixLocal = 6"
definition generatorMatrixLocal :: ref where "generatorMatrixLocal = 7"
definition rotorMatrixLocal :: ref where "rotorMatrixLocal = 8"
definition bladeMatrixLocal :: ref where "bladeMatrixLocal = 9"
definition modelMatrix :: ref where "modelMatrix = 10"

definition init_joint :: joint_angles where
  "init_joint = \<lparr>turbine = 0, base = 0, generator = 0, rotor = 0, blade = 0,
                 shoulder = 45, arm = 45, hand = 0\<rparr>"

text \<open>
  The state after the top-level declarations have run: each cell holds the value its
  initialiser leaves in the new matrix, \<open>new Matrix4().setTranslate(..).rotate(..)\<close> for
  the joints, \<open>new Matrix4().setScale(..)\<close> for the local matrices and \<open>new Matrix4()\<close>
  for \<open>modelMatrix\<close>. The shader is compiled from the page, which is not among the
  sources, so the locations of its attributes are a parameter of the initial state.
\<close>

definition init :: "(string \<Rightarrow> int) \<Rightarrow> state" where
  "init locations = \<lparr>joint = init_joint, rotDir = False, rotSpeed = 1, rotAnim = True,
     heap = [m4_rotate (m4_setTranslate 0 0 0) (turbine init_joint) 0 1 0,
             m4_rotate (m4_setTranslate 0 (- 10) 0) (base init_joint) 0 1 0,
             m4_rotate (m4_setTranslate 0 8 0) (generator init_joint) 0 1 0,
             m4_rotate (m4_setTranslate 0 0 3) (rotor init_joint) 0 1 5,
             m4_rotate (m4_setTranslate 0 0 0) (blade init_joint) 0 1 0,
             m4_setScale 2 20 2,
             m4_setScale 5 1 5,
             m4_setScale 3 3 5,
             m4_setScale (12 / 10) (12 / 10) 1,
             m4_setScale 20 (8 / 10) (8 / 10),
             m4_identity],
     console = [], events = [], getAttribLocation = locations\<rparr>"

text \<open>A shader that has the three attributes, and one that has none of them.\<close>

definition locations_012 :: "string \<Rightarrow> int" where
  "locations_012 name =
     (if name = ''a_Position'' then 0 else if name = ''a_Normal'' then 1
      else if name = ''a_Color'' then 2 else - 1)"


text \<open>Every global matrix variable refers to a cell of the heap.\<close>

definition globals_allocated :: "state \<Rightarrow> bool" where
  "globals_allocated st = (11 \<le> length (heap st))"

definition changeRotAnim :: "state \<Rightarrow> state" where
  "changeRotAnim st = st\<lparr>rotAnim := \<not> rotAnim st\<rparr>"

definition changeRotSpeed :: "real \<Rightarrow> state \<Rightarrow> state" where
  "changeRotSpeed n st =
     (if rotSpeed st + n < 1 then st\<lparr>rotSpeed := 1\<rparr>
      else st\<lparr>rotSpeed := rotSpeed st + n\<rparr>)"

definition scaleMoinho :: "real \<Rightarrow> state \<Rightarrow> state" where
  "scaleMoinho factor st =
     st\<lparr>heap :=
        Matrix4_scale bladeMatrixLocal factor factor factor
       (Matrix4_scale rotorMatrixLocal factor factor factor
       (Matrix4_scale generatorMatrixLocal factor factor factor
       (Matrix4_scale baseMatrixLocal factor factor factor
       (Matrix4_scale turbineMatrixLocal factor factor factor (heap st)))))\<rparr>"

section \<open>Rendering: renderCube and draw\<close>

definition stack_push :: "ref \<Rightarrow> ref Stack \<Rightarrow> state \<Rightarrow> ref Stack \<times> state" where
  "stack_push m s st = (push m s, st\<lparr>events := events st @ [Push m]\<rparr>)"

definition stack_pop :: "ref Stack \<Rightarrow> state \<Rightarrow> ref Stack \<times> state" where
  "stack_pop s st =
     (case pop s of (r, s', lines) \<Rightarrow>
        (s', st\<lparr>console := console st @ lines, events := events st @ [Pop r]\<rparr>))"

text \<open>
  \<open>new Matrix4(s.top()).multiply(m)\<close>: a new matrix, the copy of the top of the stack
  multiplied from the right by the matrix \<open>m\<close> refers to.
\<close>

definition top_times :: "ref Stack \<Rightarrow> ref \<Rightarrow> state \<Rightarrow> ref \<times> state" where
  "top_times s m st =
     (case top_stack s of (tp, lines) \<Rightarrow>
        (case Matrix4_new tp (heap st) of (r, h) \<Rightarrow>
           (r, st\<lparr>heap := Matrix4_multiply r m h, console := console st @ lines\<rparr>)))"

text \<open>
  \<open>renderCube\<close> looks up the three attributes of the shader in turn; when one is
  missing it logs that and returns, before any matrix is composed or uploaded. Of the
  calls to WebGL that follow only the upload of the \<open>model\<close> matrix and the draw call
  are kept, as one \<open>Render\<close> event. The normal matrix, which
  \<open>makeNormalMatrixElements\<close> computes in a temporary matrix of its own, only goes to
  the shader and is left out.
\<close>

definition renderCube :: "ref Stack \<Rightarrow> ref \<Rightarrow> state \<Rightarrow> state" where
  "renderCube matrixStack matrixLocal st =
     (let positionIndex = getAttribLocation st ''a_Position''
      in if positionIndex < 0 then
           st\<lparr>console := console st @
                [[Str ''Failed to get the storage location of a_Position'']]\<rparr>
         else
          (let normalIndex = getAttribLocation st ''a_Normal''
           in if normalIndex < 0 then
                st\<lparr>console := console st @
                     [[Str ''Failed to get the storage location of a_Normal'']]\<rparr>
              else
               (let colorIndex = getAttribLocation st ''a_Color''
                in if colorIndex < 0 then
                     st\<lparr>console := console st @
                          [[Str ''Failed to get the storage location of a_Color'']]\<rparr>
                   else
                    (case top_times matrixStack matrixLocal st of (current, st1) \<Rightarrow>
                      (case Matrix4_new (Some modelMatrix) (heap st1) of (current', h) \<Rightarrow>
                        (let h' = Matrix4_multiply current' current h
                         in st1\<lparr>heap := h',
                                events := events st1 @
                                  [Render (fst (top_stack matrixStack)) matrixLocal
                                     (h' ! current')]\<rparr>))))))"

text \<open>The check at the end of \<open>draw\<close>.\<close>

definition check_pops :: "ref Stack \<Rightarrow> state \<Rightarrow> state" where
  "check_pops s st =
     (if \<not> isEmpty s
      then st\<lparr>console := console st @ [[Str ''Warning: pops do not match pushes'']]\<rparr>
      else st)"

text \<open>
  \<open>draw\<close> (clearing the frame buffer is left out). \<open>draw_stack\<close> is its body and
  returns the stack it built, as it is at the end of the pass, beside the state.
\<close>

definition draw_stack :: "state \<Rightarrow> ref Stack \<times> state" where
  "draw_stack st0 =
     (let s = Stack_new;
          (s, st) = stack_push turbineMatrix s st0;
          st = renderCube s turbineMatrixLocal st;
          (m, st) = top_times s baseMatrix st;
          (s, st) = stack_push m s st;
          st = renderCube s baseMatrixLocal st;
          (s, st) = stack_pop s st;
          (m, st) = top_times s generatorMatrix st;
          (s, st) = stack_push m s st;
          st = renderCube s generatorMatrixLocal st;
          (m, st) = top_times s rotorMatrix st;
          (s, st) = stack_push m s st;
          st = renderCube s rotorMatrixLocal st;
          (m, st) = top_times s bladeMatrix st;
          (s, st) = stack_push m s st;
          st = renderCube s bladeMatrixLocal st;
          (s, st) = stack_pop s st;
          (s, st) = stack_pop s st;
          (s, st) = stack_pop s st;
          (s, st) = stack_pop s st
      in (s, check_pops s st))"

definition draw :: "state \<Rightarrow> state" where
  "draw st = snd (draw_stack st)"

section \<open>Animation and keys\<close>

text \<open>The function \<open>rotate\<close> of Hierarchy.js, called once per frame.\<close>

definition rotate_anim :: "state \<Rightarrow> state" where
  "rotate_anim st =
     (if rotAnim st then
        (let st1 = (if rotDir st
                    then st\<lparr>joint := (joint st)\<lparr>rotor := rotor (joint st) + rotSpeed st\<rparr>\<rparr>
                    else st\<lparr>joint := (joint st)\<lparr>rotor := rotor (joint st) - rotSpeed st\<rparr>\<rparr>);
             (currentNoseRot, h) = Matrix4_new None (heap st1);
             h = Matrix4_translate currentNoseRot 0 0 0
                   (Matrix4_rotate currentNoseRot (rotor (joint st1)) 0 0 1
                     (Matrix4_setTranslate currentNoseRot 0 0 0 h));
             h = Matrix4_multiply rotorMatrix currentNoseRot
                   (Matrix4_setTranslate rotorMatrix 0 0 3 h)
         in st1\<lparr>heap := h\<rparr>)
      else st)"

text \<open>One frame of the animation loop: \<open>rotate(); draw();\<close>\<close>

definition animate :: "state \<Rightarrow> state" where
  "animate st = draw (rotate_anim st)"

text \<open>
  The \<open>switch\<close> of \<open>handleKeyPress\<close>: the state after the case of the key, \<open>None\<close> for
  the default case, which returns at once.
\<close>

definition key_case :: "string \<Rightarrow> state \<Rightarrow> state option" where
  "key_case ch st =
     (if ch = ''t'' then
        (let st = st\<lparr>joint := (joint st)\<lparr>turbine := turbine (joint st) + 15\<rparr>\<rparr>
         in Some (st\<lparr>heap := Matrix4_rotate turbineMatrix (turbine (joint st)) 0 1 0
                            (Matrix4_setTranslate turbineMatrix 0 0 0 (heap st))\<rparr>))
      else if ch = ''T'' then
        (let st = st\<lparr>joint := (joint st)\<lparr>turbine := turbine (joint st) - 15\<rparr>\<rparr>
         in Some (st\<lparr>heap := Matrix4_rotate turbineMatrix (turbine (joint st)) 0 1 0
                            (Matrix4_setTranslate turbineMatrix 0 0 0 (heap st))\<rparr>))
      else if ch = ''g'' then
        (let st = st\<lparr>joint := (joint st)\<lparr>generator := generator (joint st) + 15\<rparr>\<rparr>
         in Some (st\<lparr>heap := Matrix4_rotate generatorMatrix (generator (joint st)) 0 1 0
                            (Matrix4_setTranslate generatorMatrix 0 8 0 (heap st))\<rparr>))
      else if ch = ''G'' then
        (let st = st\<lparr>joint := (joint st)\<lparr>generator := generator (joint st) - 15\<rparr>\<rparr>
         in Some (st\<lparr>heap := Matrix4_rotate generatorMatrix (generator (joint st)) 0 1 0
                            (Matrix4_setTranslate generatorMatrix 0 8 0 (heap st))\<rparr>))
      else if ch = ''r'' then Some (st\<lparr>rotDir := False\<rparr>)
      else if ch = ''R'' then Some (st\<lparr>rotDir := True\<rparr>)
      else if ch = ''b'' then Some (changeRotSpeed (- 1) st)
      else if ch = ''B'' then Some (changeRotSpeed 1 st)
      else if ch = ''o'' then Some (st\<lparr>rotSpeed := 1, rotDir := False\<rparr>)
      else if ch = '' '' then Some (changeRotAnim st)
      else if ch = ''ArrowUp'' then Some (scaleMoinho (11 / 10) st)
      else if ch = ''ArrowDown'' then Some (scaleMoinho (9 / 10) st)
      else None)"

text \<open>
  \<open>handleKeyPress\<close> logs the key, runs its case and draws; the default case returns
  without drawing. (The text it writes into the page afterwards is left out.)
\<close>

definition handleKeyPress :: "string \<Rightarrow> state \<Rightarrow> state" where
  "handleKeyPress ch st0 =
     (let st = st0\<lparr>console := console st0 @ [[Str ch]]\<rparr>
      in case key_case ch st of None \<Rightarrow> st | Some st' \<Rightarrow> draw st')"

text \<open>What can happen to the program: a frame of the animation, or a key.\<close>

datatype input = Frame | Key string

fun step :: "input \<Rightarrow> state \<Rightarrow> state" where
  "step Frame st = animate st"
| "step (Key ch) st = handleKeyPress ch st"

fun run :: "input list \<Rightarrow> state \<Rightarrow> state" where
  "run [] st = st"
| "run (i # is) st = run is (step i st)"

section \<open>Closed forms, for stating the results\<close>

text \<open>
  The shader has the three attributes \<open>renderCube\<close> looks up; and, when it does not, the
  line \<open>renderCube\<close> logs for the first one that is missing.
\<close>

definition attributes_found :: "state \<Rightarrow> bool" where
  "attributes_found st =
     (0 \<le> getAttribLocation st ''a_Position'' \<and> 0 \<le> getAttribLocation st ''a_Normal''
      \<and> 0 \<le> getAttribLocation st ''a_Color'')"

definition lost_line :: "state \<Rightarrow> console_line" where
  "lost_line st =
     (if getAttribLocation st ''a_Position'' < 0
      then [Str ''Failed to get the storage location of a_Position'']
      else if getAttribLocation st ''a_Normal'' < 0
      then [Str ''Failed to get the storage location of a_Normal'']
      else [Str ''Failed to get the storage location of a_Color''])"

text \<open>
  The fourteen cells one pass of \<open>draw\<close> appends to the heap \<open>h\<close> when the attributes are
  found, and the events of the pass; \<open>draw\<close> is shown below to produce exactly these. For
  each part, \<open>w\<close> is the matrix pushed for it and \<open>c\<close> the product of \<open>w\<close> and the
  part's local matrix.
\<close>

definition pass_heap :: "mat4 list \<Rightarrow> mat4 list" where
  "pass_heap h =
    (let wT = h ! turbineMatrix;
         wB = m4_multiply wT (h ! baseMatrix);
         wG = m4_multiply wT (h ! generatorMatrix);
         wR = m4_multiply wG (h ! rotorMatrix);
         wBl = m4_multiply wR (h ! bladeMatrix);
         cT = m4_multiply wT (h ! turbineMatrixLocal);
         cB = m4_multiply wB (h ! baseMatrixLocal);
         cG = m4_multiply wG (h ! generatorMatrixLocal);
         cR = m4_multiply wR (h ! rotorMatrixLocal);
         cBl = m4_multiply wBl (h ! bladeMatrixLocal);
         M = h ! modelMatrix
     in h @ [cT, m4_multiply M cT, wB, cB, m4_multiply M cB,
             wG, cG, m4_multiply M cG, wR, cR, m4_multiply M cR,
             wBl, cBl, m4_multiply M cBl])"

definition pass_events :: "mat4 list \<Rightarrow> event list" where
  "pass_events h =
    (let n = length h; h' = pass_heap h
     in [Push turbineMatrix,
         Render (Some turbineMatrix) turbineMatrixLocal (h' ! (n + 1)),
         Push (n + 2),
         Render (Some (n + 2)) baseMatrixLocal (h' ! (n + 4)),
         Pop (Some (n + 2)),
         Push (n + 5),
         Render (Some (n + 5)) generatorMatrixLocal (h' ! (n + 7)),
         Push (n + 8),
         Render (Some (n + 8)) rotorMatrixLocal (h' ! (n + 10)),
         Push (n + 11),
         Render (Some (n + 11)) bladeMatrixLocal (h' ! (n + 13)),
         Pop (Some (n + 11)), Pop (Some (n + 8)), Pop (Some (n + 5)),
         Pop (Some turbineMatrix)])"

text \<open>
  The same when an attribute is missing: only the four matrices pushed for base, generator,
  rotor and blade are allocated, and nothing is rendered.
\<close>

definition pass_heap_lost :: "mat4 list \<Rightarrow> mat4 list" where
  "pass_heap_lost h =
    (let wT = h ! turbineMatrix;
         wB = m4_multiply wT (h ! baseMatrix);
         wG = m4_multiply wT (h ! generatorMatrix);
         wR = m4_multiply wG (h ! rotorMatrix);
         wBl = m4_multiply wR (h ! bladeMatrix)
     in h @ [wB, wG, wR, wBl])"

definition pass_events_lost :: "mat4 list \<Rightarrow> event list" where
  "pass_events_lost h =
    (let n = length h
     in [Push turbineMatrix, Push n, Pop (Some n), Push (n + 1), Push (n + 2), Push (n + 3),
         Pop (Some (n + 3)), Pop (Some (n + 2)), Pop (Some (n + 1)),
         Pop (Some turbineMatrix)])"

text \<open>
  The rotor's matrix as a function of the rotor angle: the translation to \<open>(0, 0, 3)\<close>
  times the rotation by the angle about the z axis.
\<close>

definition rotor_of_angle :: "real \<Rightarrow> mat4" where
  "rotor_of_angle a = m4_multiply (m4_setTranslate 0 0 3) (m4_setRotate a 0 0 1)"

text \<open>The sign of the direction flag: \<open>rotDir\<close> true adds the speed, false subtracts it.\<close>

definition dir_sign :: "bool \<Rightarrow> real" where
  "dir_sign d = (if d then 1 else - 1)"

section \<open>Properties of the stack\<close>

lemma js_get_js_set_same: "js_get (js_set xs i v) i = v"
  by (simp add: js_get_def js_set_def nth_append)

lemma js_get_js_set_other: "j \<noteq> i \<Longrightarrow> js_get (js_set xs i v) j = js_get xs j"
  by (auto simp: js_get_def js_set_def nth_append nth_Cons')

lemma t_push: "t (push m s) = Suc (t s)"
  by (simp add: push_def)

lemma balanced_depth: "balanced (t s) cs \<Longrightarrow> t (run_calls cs s) = 0"
proof (induction cs arbitrary: s)
  case Nil
  then show ?case by simp
next
  case (Cons c cs)
  show ?case
  proof (cases c)
    case (Call_push m)
    with Cons.prems have "balanced (t (push m s)) cs" by (simp add: t_push)
    then show ?thesis using Cons.IH Call_push by simp
  next
    case Call_pop
    with Cons.prems obtain d where d: "t s = Suc d" "balanced d cs"
      by (auto split: nat.splits)
    then have "t (fst (snd (pop s))) = d" by (simp add: pop_def Let_def)
    with d show ?thesis using Cons.IH Call_pop by simp
  qed
qed

lemmas refs_def = turbineMatrix_def baseMatrix_def generatorMatrix_def rotorMatrix_def
  bladeMatrix_def turbineMatrixLocal_def baseMatrixLocal_def generatorMatrixLocal_def
  rotorMatrixLocal_def bladeMatrixLocal_def modelMatrix_def

subsection \<open>The stack holds what was pushed\<close>

lemma stack_holds_iff:
  "stack_holds s xs \<longleftrightarrow>
     t s = length xs \<and> (\<forall>i<length xs. js_get (elements s) i = Some (xs ! i))"
  unfolding stack_holds_def list_eq_iff_nth_eq by auto

lemma holds_new: "stack_holds Stack_new []"
  by (simp add: stack_holds_def Stack_new_def)

lemma holds_push: "stack_holds s xs \<Longrightarrow> stack_holds (push m s) (xs @ [m])"
  by (auto simp: stack_holds_iff push_def nth_append js_get_js_set_same js_get_js_set_other
      less_Suc_eq)

lemma holds_top: "stack_holds s (xs @ [m]) \<Longrightarrow> top_stack s = (Some m, [])"
  by (simp add: stack_holds_iff top_stack_def)

lemma holds_pop:
  assumes "stack_holds s (xs @ [m])"
  shows "fst (pop s) = Some m" and "snd (snd (pop s)) = []"
    and "stack_holds (fst (snd (pop s))) xs"
  using assms
  by (auto simp: stack_holds_iff pop_def Let_def nth_append js_get_js_set_other)

lemma holds_empty: "stack_holds s [] \<Longrightarrow> isEmpty s"
  by (simp add: stack_holds_iff isEmpty_def)

lemma stack_pop_holds:
  assumes "stack_holds s (xs @ [m])"
  shows "stack_pop s st = (fst (snd (pop s)), st\<lparr>events := events st @ [Pop (Some m)]\<rparr>)"
  using holds_pop(1,2)[OF assms]
  by (cases "pop s") (simp add: stack_pop_def)

subsection \<open>Matrix algebra\<close>

lemma m4_multiply_identity_right: "m4_multiply m m4_identity = m"
  by (cases m rule: prod_cases4; clarify) (simp add: m4_identity_def)

lemma m4_multiply_identity_left: "m4_multiply m4_identity m = m"
proof -
  obtain b0 b1 b2 b3 where m: "m = (b0, b1, b2, b3)" by (cases m rule: prod_cases4)
  have ap: "m4_apply m4_identity v = v" for v
    by (cases v rule: prod_cases4) (simp add: m4_identity_def)
  show ?thesis by (simp add: m ap)
qed

lemma m4_setTranslate_zero: "m4_setTranslate 0 0 0 = m4_identity"
  by (simp add: m4_setTranslate_def m4_identity_def)

lemma m4_translate_zero: "m4_translate m 0 0 0 = m"
  by (cases m rule: prod_cases4; clarify) simp

lemma m4_setRotate_zero: "m4_setRotate 0 x y z = m4_identity"
  by (simp add: m4_setRotate_def m4_identity_def Let_def)

lemma m4_scale_multiply: "m4_scale m x y z = m4_multiply m (m4_setScale x y z)"
  by (cases m rule: prod_cases4; clarify) (simp add: m4_setScale_def)

lemma m4_setScale_product:
  "m4_multiply (m4_setScale x y z) (m4_setScale x' y' z') = m4_setScale (x * x') (y * y') (z * z')"
  by (simp add: m4_setScale_def)

lemma m4_apply_apply: "m4_apply a (m4_apply b v) = m4_apply (m4_multiply a b) v"
  by (cases a rule: prod_cases4; cases b rule: prod_cases4; cases v rule: prod_cases4; clarify)
     (simp add: algebra_simps)

lemma m4_multiply_assoc: "m4_multiply (m4_multiply a b) c = m4_multiply a (m4_multiply b c)"
  by (cases c rule: prod_cases4) (simp add: m4_apply_apply)

subsection \<open>One pass of draw\<close>

lemma top_times_eq:
  "top_stack s = (Some r, []) \<Longrightarrow> r < length (heap st) \<Longrightarrow> m < length (heap st) \<Longrightarrow>
   top_times s m st =
     (length (heap st), st\<lparr>heap := heap st @ [m4_multiply (heap st ! r) (heap st ! m)]\<rparr>)"
  by (simp add: top_times_def Matrix4_new_def Matrix4_multiply_def nth_append)

lemma renderCube_lost:
  "\<not> attributes_found st \<Longrightarrow>
   renderCube s m st = st\<lparr>console := console st @ [lost_line st]\<rparr>"
  by (auto simp: renderCube_def attributes_found_def lost_line_def Let_def)

lemma renderCube_eq:
  "top_stack s = (Some r, []) \<Longrightarrow> r < length (heap st) \<Longrightarrow> m < length (heap st) \<Longrightarrow>
   modelMatrix < length (heap st) \<Longrightarrow> attributes_found st \<Longrightarrow>
   renderCube s m st = st\<lparr>heap := heap st @ [m4_multiply (heap st ! r) (heap st ! m),
       m4_multiply (heap st ! modelMatrix) (m4_multiply (heap st ! r) (heap st ! m))],
     events := events st @ [Render (Some r) m
       (m4_multiply (heap st ! modelMatrix) (m4_multiply (heap st ! r) (heap st ! m)))]\<rparr>"
  by (simp add: renderCube_def attributes_found_def Let_def top_times_eq Matrix4_new_def
      Matrix4_multiply_def nth_append)

lemma draw_stack_eq:
  assumes ga: "globals_allocated st" and af: "attributes_found st"
  shows "snd (draw_stack st) = st\<lparr>heap := pass_heap (heap st), events := events st @ pass_events (heap st)\<rparr>"
    and "isEmpty (fst (draw_stack st))"
proof -
  define h where "h = heap st"
  define n where "n = length h"
  define ev where "ev = events st"
  define wT where "wT = h ! turbineMatrix"
  define wB where "wB = m4_multiply wT (h ! baseMatrix)"
  define wG where "wG = m4_multiply wT (h ! generatorMatrix)"
  define wR where "wR = m4_multiply wG (h ! rotorMatrix)"
  define wBl where "wBl = m4_multiply wR (h ! bladeMatrix)"
  define cT where "cT = m4_multiply wT (h ! turbineMatrixLocal)"
  define cB where "cB = m4_multiply wB (h ! baseMatrixLocal)"
  define cG where "cG = m4_multiply wG (h ! generatorMatrixLocal)"
  define cR where "cR = m4_multiply wR (h ! rotorMatrixLocal)"
  define cBl where "cBl = m4_multiply wBl (h ! bladeMatrixLocal)"
  define M where "M = h ! modelMatrix"
  note vals = wT_def wB_def wG_def wR_def wBl_def cT_def cB_def cG_def cR_def cBl_def M_def
  have len: "11 \<le> length h" using ga by (simp add: globals_allocated_def h_def)
  have lt: "turbineMatrix < n" "baseMatrix < n" "generatorMatrix < n" "rotorMatrix < n"
    "bladeMatrix < n" "turbineMatrixLocal < n" "baseMatrixLocal < n"
    "generatorMatrixLocal < n" "rotorMatrixLocal < n" "bladeMatrixLocal < n" "modelMatrix < n"
    using len by (auto simp: refs_def n_def)
  define e1 where "e1 = [Push turbineMatrix]"
  define e2 where "e2 = e1 @ [Render (Some turbineMatrix) turbineMatrixLocal (m4_multiply M cT)]"
  define h2 where "h2 = h @ [cT, m4_multiply M cT]"
  define e3 where "e3 = e2 @ [Push (n + 2)]"
  define h3 where "h3 = h2 @ [wB]"
  define e4 where "e4 = e3 @ [Render (Some (n + 2)) baseMatrixLocal (m4_multiply M cB)]"
  define h4 where "h4 = h3 @ [cB, m4_multiply M cB]"
  define e5 where "e5 = e4 @ [Pop (Some (n + 2))]"
  define h6 where "h6 = h4 @ [wG]"
  define e6 where "e6 = e5 @ [Push (n + 5)]"
  define h7 where "h7 = h6 @ [cG, m4_multiply M cG]"
  define e7 where "e7 = e6 @ [Render (Some (n + 5)) generatorMatrixLocal (m4_multiply M cG)]"
  define h8 where "h8 = h7 @ [wR]"
  define e8 where "e8 = e7 @ [Push (n + 8)]"
  define h9 where "h9 = h8 @ [cR, m4_multiply M cR]"
  define e9 where "e9 = e8 @ [Render (Some (n + 8)) rotorMatrixLocal (m4_multiply M cR)]"
  define h10 where "h10 = h9 @ [wBl]"
  define e10 where "e10 = e9 @ [Push (n + 11)]"
  define h11 where "h11 = h10 @ [cBl, m4_multiply M cBl]"
  define e11 where "e11 = e10 @ [Render (Some (n + 11)) bladeMatrixLocal (m4_multiply M cBl)]"
  define e12 where "e12 = e11 @ [Pop (Some (n + 11))]"
  define e13 where "e13 = e12 @ [Pop (Some (n + 8))]"
  define e14 where "e14 = e13 @ [Pop (Some (n + 5))]"
  define e15 where "e15 = e14 @ [Pop (Some turbineMatrix)]"
  note hs = h2_def h3_def h4_def h6_def h7_def h8_def h9_def h10_def h11_def
  define S where "S = (\<lambda>hh ee. st\<lparr>heap := hh, events := ev @ ee\<rparr>)"
  have S_sel: "\<And>hh ee. heap (S hh ee) = hh" "\<And>hh ee. events (S hh ee) = ev @ ee"
    by (simp_all add: S_def)
  have S_upd: "\<And>hh ee hh' ee'. (S hh ee)\<lparr>heap := hh', events := ee'\<rparr> = st\<lparr>heap := hh', events := ee'\<rparr>"
    "\<And>hh ee ee'. (S hh ee)\<lparr>events := ee'\<rparr> = st\<lparr>heap := hh, events := ee'\<rparr>"
    "\<And>hh ee hh'. (S hh ee)\<lparr>heap := hh'\<rparr> = st\<lparr>heap := hh', events := ev @ ee\<rparr>"
    by (simp_all add: S_def)
  have afS: "\<And>hh ee. attributes_found (S hh ee)"
    using af by (simp add: S_def attributes_found_def)
  define s1 where "s1 = push turbineMatrix (Stack_new :: ref Stack)"
  have r1: "stack_holds s1 [turbineMatrix]"
    using holds_push[OF holds_new, of turbineMatrix] by (simp add: s1_def)
  have p1: "stack_push turbineMatrix Stack_new st = (s1, S h e1)"
    by (simp add: stack_push_def s1_def S_def e1_def h_def ev_def)
  have t1: "top_stack s1 = (Some turbineMatrix, [])"
    using holds_top[of s1 "[]"] r1 by simp
  have c1: "renderCube s1 turbineMatrixLocal (S h e1) = S h2 e2"
    using lt afS by (simp add: renderCube_eq[OF t1] S_sel S_upd n_def vals h2_def e2_def S_def)
  have m2: "top_times s1 baseMatrix (S h2 e2) = (n + 2, S h3 e2)"
    using lt by (simp add: top_times_eq[OF t1] S_sel S_upd n_def vals hs nth_append S_def)
  define s2 where "s2 = push (n + 2) s1"
  have r2: "stack_holds s2 [turbineMatrix, n + 2]"
    using holds_push[OF r1, of "n + 2"] by (simp add: s2_def)
  have t2: "top_stack s2 = (Some (n + 2), [])"
    using holds_top[of s2 "[turbineMatrix]"] r2 by simp
  have p2: "stack_push (n + 2) s1 (S h3 e2) = (s2, S h3 e3)"
    by (simp add: stack_push_def s2_def S_def e3_def)
  have c2: "renderCube s2 baseMatrixLocal (S h3 e3) = S h4 e4"
    using lt afS by (simp add: renderCube_eq[OF t2] S_sel S_upd n_def vals hs e4_def nth_append S_def)
  define s3 where "s3 = fst (snd (pop s2))"
  have r3: "stack_holds s3 [turbineMatrix]"
    using holds_pop(3)[of s2 "[turbineMatrix]"] r2 by (simp add: s3_def)
  have p3: "stack_pop s2 (S h4 e4) = (s3, S h4 e5)"
    using stack_pop_holds[of s2 "[turbineMatrix]" "n + 2"] r2
    by (simp add: s3_def S_def e5_def)
  have t3: "top_stack s3 = (Some turbineMatrix, [])"
    using holds_top[of s3 "[]"] r3 by simp
  have m4: "top_times s3 generatorMatrix (S h4 e5) = (n + 5, S h6 e5)"
    using lt by (simp add: top_times_eq[OF t3] S_sel S_upd n_def vals hs nth_append S_def)
  define s4 where "s4 = push (n + 5) s3"
  have r4: "stack_holds s4 [turbineMatrix, n + 5]"
    using holds_push[OF r3, of "n + 5"] by (simp add: s4_def)
  have t4: "top_stack s4 = (Some (n + 5), [])"
    using holds_top[of s4 "[turbineMatrix]"] r4 by simp
  have p4: "stack_push (n + 5) s3 (S h6 e5) = (s4, S h6 e6)"
    by (simp add: stack_push_def s4_def S_def e6_def)
  have c4: "renderCube s4 generatorMatrixLocal (S h6 e6) = S h7 e7"
    using lt afS by (simp add: renderCube_eq[OF t4] S_sel S_upd n_def vals hs e7_def nth_append S_def)
  have m5: "top_times s4 rotorMatrix (S h7 e7) = (n + 8, S h8 e7)"
    using lt by (simp add: top_times_eq[OF t4] S_sel S_upd n_def vals hs nth_append S_def)
  define s5 where "s5 = push (n + 8) s4"
  have r5: "stack_holds s5 [turbineMatrix, n + 5, n + 8]"
    using holds_push[OF r4, of "n + 8"] by (simp add: s5_def)
  have t5: "top_stack s5 = (Some (n + 8), [])"
    using holds_top[of s5 "[turbineMatrix, n + 5]"] r5 by simp
  have p5: "stack_push (n + 8) s4 (S h8 e7) = (s5, S h8 e8)"
    by (simp add: stack_push_def s5_def S_def e8_def)
  have c5: "renderCube s5 rotorMatrixLocal (S h8 e8) = S h9 e9"
    using lt afS by (simp add: renderCube_eq[OF t5] S_sel S_upd n_def vals hs e9_def nth_append S_def)
  have m6: "top_times s5 bladeMatrix (S h9 e9) = (n + 11, S h10 e9)"
    using lt by (simp add: top_times_eq[OF t5] S_sel S_upd n_def vals hs nth_append S_def)
  define s6 where "s6 = push (n + 11) s5"
  have r6: "stack_holds s6 [turbineMatrix, n + 5, n + 8, n + 11]"
    using holds_push[OF r5, of "n + 11"] by (simp add: s6_def)
  have t6: "top_stack s6 = (Some (n + 11), [])"
    using holds_top[of s6 "[turbineMatrix, n + 5, n + 8]"] r6 by simp
  have p6: "stack_push (n + 11) s5 (S h10 e9) = (s6, S h10 e10)"
    by (simp add: stack_push_def s6_def S_def e10_def)
  have c6: "renderCube s6 bladeMatrixLocal (S h10 e10) = S h11 e11"
    using lt afS by (simp add: renderCube_eq[OF t6] S_sel S_upd n_def vals hs e11_def nth_append S_def)
  define s7 where "s7 = fst (snd (pop s6))"
  have r7: "stack_holds s7 [turbineMatrix, n + 5, n + 8]"
    using holds_pop(3)[of s6 "[turbineMatrix, n + 5, n + 8]"] r6 by (simp add: s7_def)
  have p7: "stack_pop s6 (S h11 e11) = (s7, S h11 e12)"
    using stack_pop_holds[of s6 "[turbineMatrix, n + 5, n + 8]" "n + 11"] r6
    by (simp add: s7_def S_def e12_def)
  define s8 where "s8 = fst (snd (pop s7))"
  have r8: "stack_holds s8 [turbineMatrix, n + 5]"
    using holds_pop(3)[of s7 "[turbineMatrix, n + 5]"] r7 by (simp add: s8_def)
  have p8: "stack_pop s7 (S h11 e12) = (s8, S h11 e13)"
    using stack_pop_holds[of s7 "[turbineMatrix, n + 5]" "n + 8"] r7
    by (simp add: s8_def S_def e13_def)
  define s9 where "s9 = fst (snd (pop s8))"
  have r9: "stack_holds s9 [turbineMatrix]"
    using holds_pop(3)[of s8 "[turbineMatrix]"] r8 by (simp add: s9_def)
  have p9: "stack_pop s8 (S h11 e13) = (s9, S h11 e14)"
    using stack_pop_holds[of s8 "[turbineMatrix]" "n + 5"] r8
    by (simp add: s9_def S_def e14_def)
  define s10 where "s10 = fst (snd (pop s9))"
  have r10: "stack_holds s10 []"
    using holds_pop(3)[of s9 "[]"] r9 by (simp add: s10_def)
  have p10: "stack_pop s9 (S h11 e14) = (s10, S h11 e15)"
    using stack_pop_holds[of s9 "[]" turbineMatrix] r9
    by (simp add: s10_def S_def e15_def)
  have emp: "isEmpty s10" using holds_empty[OF r10] .
  have ds: "draw_stack st = (s10, S h11 e15)"
    unfolding draw_stack_def Let_def
    by (simp only: p1 c1 m2 p2 c2 p3 m4 p4 c4 m5 p5 c5 m6 p6 c6 p7 p8 p9 p10
        prod.case check_pops_def emp not_True_eq_False if_False)
  have hh: "h11 = pass_heap h"
    by (simp add: hs pass_heap_def Let_def vals)
  have ee: "e15 = pass_events h"
    by (simp add: e15_def e14_def e13_def e12_def e11_def e10_def e9_def e8_def e7_def e6_def
        e5_def e4_def e3_def e2_def e1_def pass_events_def pass_heap_def Let_def vals n_def
        nth_append)
  show "snd (draw_stack st) = st\<lparr>heap := pass_heap (heap st), events := events st @ pass_events (heap st)\<rparr>"
    by (simp add: ds S_def hh ee h_def ev_def)
  show "isEmpty (fst (draw_stack st))" by (simp add: ds emp)
qed

lemma draw_stack_lost:
  assumes ga: "globals_allocated st" and af: "\<not> attributes_found st"
  shows "snd (draw_stack st) = st\<lparr>heap := pass_heap_lost (heap st),
           events := events st @ pass_events_lost (heap st),
           console := console st @ replicate 5 (lost_line st)\<rparr>"
    and "isEmpty (fst (draw_stack st))"
proof -
  define h where "h = heap st"
  define n where "n = length h"
  define ev where "ev = events st"
  define co where "co = console st"
  define ll where "ll = lost_line st"
  define wT where "wT = h ! turbineMatrix"
  define wB where "wB = m4_multiply wT (h ! baseMatrix)"
  define wG where "wG = m4_multiply wT (h ! generatorMatrix)"
  define wR where "wR = m4_multiply wG (h ! rotorMatrix)"
  define wBl where "wBl = m4_multiply wR (h ! bladeMatrix)"
  note vals = wT_def wB_def wG_def wR_def wBl_def
  have len: "11 \<le> length h" using ga by (simp add: globals_allocated_def h_def)
  have lt: "turbineMatrix < n" "baseMatrix < n" "generatorMatrix < n" "rotorMatrix < n"
    "bladeMatrix < n"
    using len by (auto simp: refs_def n_def)
  define S where "S = (\<lambda>hh ee k. st\<lparr>heap := hh, events := ev @ ee,
      console := co @ replicate k ll\<rparr>)"
  have S_sel: "\<And>hh ee k. heap (S hh ee k) = hh" "\<And>hh ee k. events (S hh ee k) = ev @ ee"
    "\<And>hh ee k. console (S hh ee k) = co @ replicate k ll"
    by (simp_all add: S_def)
  have afS: "\<And>hh ee k. \<not> attributes_found (S hh ee k)"
    "\<And>hh ee k. lost_line (S hh ee k) = ll"
    using af by (simp_all add: S_def attributes_found_def lost_line_def ll_def)
  have rc: "\<And>s m hh ee k. renderCube s m (S hh ee k) = S hh ee (Suc k)"
    by (simp add: renderCube_lost afS S_sel) (simp add: S_def replicate_append_same)
  have tt: "\<And>s r m hh ee k. top_stack s = (Some r, []) \<Longrightarrow> r < length hh \<Longrightarrow>
      m < length hh \<Longrightarrow>
      top_times s m (S hh ee k) = (length hh, S (hh @ [m4_multiply (hh ! r) (hh ! m)]) ee k)"
    by (simp add: top_times_eq S_sel) (simp add: S_def)
  have pu: "\<And>m s hh ee k. stack_push m s (S hh ee k) = (push m s, S hh (ee @ [Push m]) k)"
    by (simp add: stack_push_def S_def)
  have po: "\<And>s xs m hh ee k. stack_holds s (xs @ [m]) \<Longrightarrow>
      stack_pop s (S hh ee k) = (fst (snd (pop s)), S hh (ee @ [Pop (Some m)]) k)"
    by (simp add: stack_pop_holds) (simp add: S_def)
  define h3 where "h3 = h @ [wB]"
  define h6 where "h6 = h3 @ [wG]"
  define h8 where "h8 = h6 @ [wR]"
  define h10 where "h10 = h8 @ [wBl]"
  note hs = h3_def h6_def h8_def h10_def
  define s1 where "s1 = push turbineMatrix (Stack_new :: ref Stack)"
  have r1: "stack_holds s1 [turbineMatrix]"
    using holds_push[OF holds_new, of turbineMatrix] by (simp add: s1_def)
  have t1: "top_stack s1 = (Some turbineMatrix, [])"
    using holds_top[of s1 "[]"] r1 by simp
  have p1: "stack_push turbineMatrix Stack_new st = (s1, S h [Push turbineMatrix] 0)"
    by (simp add: stack_push_def s1_def S_def h_def ev_def co_def)
  have m2: "top_times s1 baseMatrix (S h [Push turbineMatrix] (Suc 0))
      = (n, S h3 [Push turbineMatrix] (Suc 0))"
    using lt by (simp add: tt[OF t1] n_def vals hs)
  define s2 where "s2 = push n s1"
  have r2: "stack_holds s2 [turbineMatrix, n]"
    using holds_push[OF r1, of n] by (simp add: s2_def)
  define s3 where "s3 = fst (snd (pop s2))"
  have r3: "stack_holds s3 [turbineMatrix]"
    using holds_pop(3)[of s2 "[turbineMatrix]"] r2 by (simp add: s3_def)
  have p3: "\<And>hh ee k. stack_pop s2 (S hh ee k) = (s3, S hh (ee @ [Pop (Some n)]) k)"
    using po[of s2 "[turbineMatrix]" n] r2 by (simp add: s3_def)
  have t3: "top_stack s3 = (Some turbineMatrix, [])"
    using holds_top[of s3 "[]"] r3 by simp
  have m4: "\<And>ee k. top_times s3 generatorMatrix (S h3 ee k) = (n + 1, S h6 ee k)"
    using lt by (simp add: tt[OF t3] n_def vals hs nth_append)
  define s4 where "s4 = push (n + 1) s3"
  have r4: "stack_holds s4 [turbineMatrix, n + 1]"
    using holds_push[OF r3, of "n + 1"] by (simp add: s4_def)
  have t4: "top_stack s4 = (Some (n + 1), [])"
    using holds_top[of s4 "[turbineMatrix]"] r4 by simp
  have m5: "\<And>ee k. top_times s4 rotorMatrix (S h6 ee k) = (n + 2, S h8 ee k)"
    using lt by (simp add: tt[OF t4] n_def vals hs nth_append)
  define s5 where "s5 = push (n + 2) s4"
  have r5: "stack_holds s5 [turbineMatrix, n + 1, n + 2]"
    using holds_push[OF r4, of "n + 2"] by (simp add: s5_def)
  have t5: "top_stack s5 = (Some (n + 2), [])"
    using holds_top[of s5 "[turbineMatrix, n + 1]"] r5 by simp
  have m6: "\<And>ee k. top_times s5 bladeMatrix (S h8 ee k) = (n + 3, S h10 ee k)"
    using lt by (simp add: tt[OF t5] n_def vals hs nth_append)
  define s6 where "s6 = push (n + 3) s5"
  have r6: "stack_holds s6 [turbineMatrix, n + 1, n + 2, n + 3]"
    using holds_push[OF r5, of "n + 3"] by (simp add: s6_def)
  define s7 where "s7 = fst (snd (pop s6))"
  have r7: "stack_holds s7 [turbineMatrix, n + 1, n + 2]"
    using holds_pop(3)[of s6 "[turbineMatrix, n + 1, n + 2]"] r6 by (simp add: s7_def)
  have p7: "\<And>hh ee k. stack_pop s6 (S hh ee k) = (s7, S hh (ee @ [Pop (Some (n + 3))]) k)"
    using po[of s6 "[turbineMatrix, n + 1, n + 2]" "n + 3"] r6 by (simp add: s7_def)
  define s8 where "s8 = fst (snd (pop s7))"
  have r8: "stack_holds s8 [turbineMatrix, n + 1]"
    using holds_pop(3)[of s7 "[turbineMatrix, n + 1]"] r7 by (simp add: s8_def)
  have p8: "\<And>hh ee k. stack_pop s7 (S hh ee k) = (s8, S hh (ee @ [Pop (Some (n + 2))]) k)"
    using po[of s7 "[turbineMatrix, n + 1]" "n + 2"] r7 by (simp add: s8_def)
  define s9 where "s9 = fst (snd (pop s8))"
  have r9: "stack_holds s9 [turbineMatrix]"
    using holds_pop(3)[of s8 "[turbineMatrix]"] r8 by (simp add: s9_def)
  have p9: "\<And>hh ee k. stack_pop s8 (S hh ee k) = (s9, S hh (ee @ [Pop (Some (n + 1))]) k)"
    using po[of s8 "[turbineMatrix]" "n + 1"] r8 by (simp add: s9_def)
  define s10 where "s10 = fst (snd (pop s9))"
  have r10: "stack_holds s10 []"
    using holds_pop(3)[of s9 "[]"] r9 by (simp add: s10_def)
  have p10: "\<And>hh ee k. stack_pop s9 (S hh ee k) = (s10, S hh (ee @ [Pop (Some turbineMatrix)]) k)"
    using po[of s9 "[]" turbineMatrix] r9 by (simp add: s10_def)
  have emp: "isEmpty s10" using holds_empty[OF r10] .
  have ds: "draw_stack st = (s10, S h10 (pass_events_lost h) 5)"
    unfolding draw_stack_def Let_def
    by (simp only: p1 rc m2 pu p3 m4 m5 m6 p7 p8 p9 p10 s2_def [symmetric] s4_def [symmetric]
        s5_def [symmetric] s6_def [symmetric] prod.case check_pops_def emp not_True_eq_False
        if_False)
       (simp add: pass_events_lost_def Let_def n_def eval_nat_numeral)
  have hh: "h10 = pass_heap_lost h"
    by (simp add: hs pass_heap_lost_def Let_def vals)
  show "snd (draw_stack st) = st\<lparr>heap := pass_heap_lost (heap st),
           events := events st @ pass_events_lost (heap st),
           console := console st @ replicate 5 (lost_line st)\<rparr>"
    by (simp add: ds S_def hh h_def ev_def co_def ll_def)
  show "isEmpty (fst (draw_stack st))" by (simp add: ds emp)
qed

text \<open>What a pass of \<open>draw\<close> does to the state, in both cases.\<close>

lemma draw_eq:
  assumes "globals_allocated st"
  shows "draw st =
     (if attributes_found st
      then st\<lparr>heap := pass_heap (heap st), events := events st @ pass_events (heap st)\<rparr>
      else st\<lparr>heap := pass_heap_lost (heap st),
              events := events st @ pass_events_lost (heap st),
              console := console st @ replicate 5 (lost_line st)\<rparr>)"
  using draw_stack_eq(1) [OF assms] draw_stack_lost(1) [OF assms] by (simp add: draw_def)

lemma draw_stack_empty: "globals_allocated st \<Longrightarrow> isEmpty (fst (draw_stack st))"
  using draw_stack_eq(2) [of st] draw_stack_lost(2) [of st] by blast

lemma length_pass_heap_lost: "length (pass_heap_lost h) = length h + 4"
  by (simp add: pass_heap_lost_def Let_def)

lemma take_pass_heap_lost: "take (length h) (pass_heap_lost h) = h"
  by (simp add: pass_heap_lost_def Let_def)

lemma nth_pass_heap_lost: "i < length h \<Longrightarrow> pass_heap_lost h ! i = h ! i"
  by (simp add: pass_heap_lost_def Let_def nth_append)

lemma length_pass_heap: "length (pass_heap h) = length h + 14"
  by (simp add: pass_heap_def Let_def)

lemma take_pass_heap: "take (length h) (pass_heap h) = h"
  by (simp add: pass_heap_def Let_def)

lemma nth_pass_heap: "i < length h \<Longrightarrow> pass_heap h ! i = h ! i"
  by (simp add: pass_heap_def Let_def nth_append)

lemma draw_keeps:
  assumes "globals_allocated st"
  shows "joint (draw st) = joint st" and "rotDir (draw st) = rotDir st"
    and "rotSpeed (draw st) = rotSpeed st" and "rotAnim (draw st) = rotAnim st"
    and "getAttribLocation (draw st) = getAttribLocation st"
    and "take (length (heap st)) (heap (draw st)) = heap st"
  by (cases "attributes_found st"; simp add: draw_eq [OF assms] take_pass_heap
      take_pass_heap_lost)+

lemma draw_keeps_cell:
  "globals_allocated st \<Longrightarrow> i < length (heap st) \<Longrightarrow> heap (draw st) ! i = heap st ! i"
  by (cases "attributes_found st") (simp_all add: draw_eq nth_pass_heap nth_pass_heap_lost)

lemma draw_console:
  "globals_allocated st \<Longrightarrow>
   console (draw st) =
     console st @ replicate (if attributes_found st then 0 else 5) (lost_line st)"
  by (simp add: draw_eq)

lemma draw_events:
  "globals_allocated st \<Longrightarrow>
   events (draw st) =
     events st @ (if attributes_found st then pass_events (heap st)
                  else pass_events_lost (heap st))"
  by (simp add: draw_eq)

lemma globals_allocated_draw: "globals_allocated st \<Longrightarrow> globals_allocated (draw st)"
  by (cases "attributes_found st")
     (simp_all add: draw_eq globals_allocated_def length_pass_heap length_pass_heap_lost)

lemma globals_allocated_init: "globals_allocated (init locs)"
  by (simp add: globals_allocated_def init_def)

lemma global_refs_valid:
  assumes "globals_allocated st"
  shows "turbineMatrix < length (heap st)" "baseMatrix < length (heap st)"
    "generatorMatrix < length (heap st)" "rotorMatrix < length (heap st)"
    "bladeMatrix < length (heap st)" "turbineMatrixLocal < length (heap st)"
    "baseMatrixLocal < length (heap st)" "generatorMatrixLocal < length (heap st)"
    "rotorMatrixLocal < length (heap st)" "bladeMatrixLocal < length (heap st)"
    "modelMatrix < length (heap st)"
  using assms by (auto simp: globals_allocated_def refs_def)

subsection \<open>The animation step and the keys\<close>

lemma nose_rotation:
  "m4_translate (m4_rotate (m4_setTranslate 0 0 0) a 0 0 1) 0 0 0 = m4_setRotate a 0 0 1"
  by (simp add: m4_translate_zero m4_rotate_def m4_setTranslate_zero m4_multiply_identity_left)

lemma rotate_anim_on:
  assumes "globals_allocated st" and "rotAnim st"
  shows "rotate_anim st =
     (let a = rotor (joint st) + rotSpeed st * dir_sign (rotDir st)
      in st\<lparr>joint := (joint st)\<lparr>rotor := a\<rparr>,
            heap := (heap st)[rotorMatrix := rotor_of_angle a] @ [m4_setRotate a 0 0 1]\<rparr>)"
proof -
  have lt: "rotorMatrix < length (heap st)"
    using global_refs_valid(4) [OF assms(1)] .
  show ?thesis
    using assms(2) lt
    by (simp add: rotate_anim_def Let_def Matrix4_new_def Matrix4_setTranslate_def
        Matrix4_rotate_def Matrix4_translate_def Matrix4_multiply_def nose_rotation
        rotor_of_angle_def dir_sign_def nth_append list_update_append)
qed

lemma rotate_anim_off: "\<not> rotAnim st \<Longrightarrow> rotate_anim st = st"
  by (simp add: rotate_anim_def)

lemma animate_on:
  assumes "globals_allocated st" and "rotAnim st"
  shows "globals_allocated (animate st)"
    and "rotor (joint (animate st)) = rotor (joint st) + rotSpeed st * dir_sign (rotDir st)"
    and "heap (animate st) ! rotorMatrix = rotor_of_angle (rotor (joint (animate st)))"
    and "rotAnim (animate st)" and "rotDir (animate st) = rotDir st"
    and "rotSpeed (animate st) = rotSpeed st"
proof -
  have lt: "rotorMatrix < length (heap st)"
    using global_refs_valid(4) [OF assms(1)] .
  have ga: "globals_allocated (rotate_anim st)"
    using assms(1) by (simp add: rotate_anim_on [OF assms] Let_def globals_allocated_def)
  show "globals_allocated (animate st)"
    using globals_allocated_draw [OF ga] by (simp add: animate_def)
  have lt': "rotorMatrix < length (heap (rotate_anim st))"
    using global_refs_valid(4) [OF ga] .
  show "rotor (joint (animate st)) = rotor (joint st) + rotSpeed st * dir_sign (rotDir st)"
    by (simp add: animate_def draw_keeps [OF ga]) (simp add: rotate_anim_on [OF assms] Let_def)
  show "heap (animate st) ! rotorMatrix = rotor_of_angle (rotor (joint (animate st)))"
    using lt
    by (simp add: animate_def draw_keeps [OF ga] draw_keeps_cell [OF ga lt'])
       (simp add: rotate_anim_on [OF assms] Let_def nth_append)
  show "rotAnim (animate st)" "rotDir (animate st) = rotDir st"
    "rotSpeed (animate st) = rotSpeed st"
    using assms(2)
    by (simp_all add: animate_def draw_keeps [OF ga]) (simp_all add: rotate_anim_on [OF assms] Let_def)
qed

lemma animate_off:
  assumes "globals_allocated st" and "\<not> rotAnim st"
  shows "globals_allocated (animate st)"
    and "joint (animate st) = joint st"
    and "heap (animate st) ! rotorMatrix = heap st ! rotorMatrix"
    and "\<not> rotAnim (animate st)" and "rotDir (animate st) = rotDir st"
    and "rotSpeed (animate st) = rotSpeed st"
  using assms globals_allocated_draw [OF assms(1)] global_refs_valid(4) [OF assms(1)]
  by (simp_all add: animate_def rotate_anim_off draw_keeps draw_keeps_cell)

text \<open>No key changes the rotor's angle, the rotor's matrix or the size of the heap
  before it draws.\<close>

lemma key_case_rotor:
  assumes "key_case ch st = Some st'" and "globals_allocated st"
  shows "globals_allocated st'"
    and "rotor (joint st') = rotor (joint st)"
    and "heap st' ! rotorMatrix = heap st ! rotorMatrix"
  using assms
  by (auto simp: key_case_def Let_def globals_allocated_def changeRotSpeed_def
      changeRotAnim_def scaleMoinho_def Matrix4_rotate_def Matrix4_setTranslate_def
      Matrix4_scale_def refs_def split: if_splits)

lemma handleKeyPress_rotor:
  assumes "globals_allocated st"
  shows "globals_allocated (handleKeyPress ch st)"
    and "rotor (joint (handleKeyPress ch st)) = rotor (joint st)"
    and "heap (handleKeyPress ch st) ! rotorMatrix = heap st ! rotorMatrix"
proof -
  define st0 where "st0 = st\<lparr>console := console st @ [[Str ch]]\<rparr>"
  have ga0: "globals_allocated st0" using assms by (simp add: st0_def globals_allocated_def)
  have same: "rotor (joint st0) = rotor (joint st)" "heap st0 = heap st"
    by (simp_all add: st0_def)
  have "globals_allocated (handleKeyPress ch st)
      \<and> rotor (joint (handleKeyPress ch st)) = rotor (joint st)
      \<and> heap (handleKeyPress ch st) ! rotorMatrix = heap st ! rotorMatrix"
  proof (cases "key_case ch st0")
    case None
    then show ?thesis using ga0 same by (simp add: handleKeyPress_def st0_def Let_def)
  next
    case (Some st')
    note k = key_case_rotor [OF Some ga0]
    have hk: "handleKeyPress ch st = draw st'"
      using Some by (simp add: handleKeyPress_def st0_def Let_def)
    show ?thesis
      using k same globals_allocated_draw [OF k(1)] global_refs_valid(4) [OF k(1)]
      by (simp add: hk draw_keeps [OF k(1)] draw_keeps_cell [OF k(1)])
  qed
  then show "globals_allocated (handleKeyPress ch st)"
    and "rotor (joint (handleKeyPress ch st)) = rotor (joint st)"
    and "heap (handleKeyPress ch st) ! rotorMatrix = heap st ! rotorMatrix"
    by simp_all
qed

lemma init_rotor: "heap (init locs) ! rotorMatrix = rotor_of_angle (rotor (joint (init locs)))"
  by (simp add: init_def init_joint_def rotorMatrix_def rotor_of_angle_def m4_rotate_def
      m4_setRotate_zero)

lemma rotor_invariant_step:
  assumes "globals_allocated st"
    and "heap st ! rotorMatrix = rotor_of_angle (rotor (joint st))"
  shows "globals_allocated (step i st)
       \<and> heap (step i st) ! rotorMatrix = rotor_of_angle (rotor (joint (step i st)))"
proof (cases i)
  case Frame
  show ?thesis
  proof (cases "rotAnim st")
    case True
    then show ?thesis using animate_on(1,3) [OF assms(1)] Frame by simp
  next
    case False
    then show ?thesis using animate_off(1,2,3) [OF assms(1)] assms(2) Frame by simp
  qed
next
  case (Key ch)
  then show ?thesis using handleKeyPress_rotor [OF assms(1), of ch] assms(2) by simp
qed

lemma rotor_invariant_run:
  assumes "globals_allocated st"
    and "heap st ! rotorMatrix = rotor_of_angle (rotor (joint st))"
  shows "globals_allocated (run is st)
       \<and> heap (run is st) ! rotorMatrix = rotor_of_angle (rotor (joint (run is st)))"
  using assms
proof (induction "is" arbitrary: st)
  case Nil
  then show ?case by simp
next
  case (Cons i "is")
  from rotor_invariant_step [OF Cons.prems, of i] show ?case
    using Cons.IH by simp
qed

lemma handleKeyPress_direction:
  "handleKeyPress ''r'' st = draw (st\<lparr>console := console st @ [[Str ''r'']], rotDir := False\<rparr>)"
  "handleKeyPress ''R'' st = draw (st\<lparr>console := console st @ [[Str ''R'']], rotDir := True\<rparr>)"
  by (simp_all add: handleKeyPress_def key_case_def Let_def)

lemma handleKeyPress_space:
  "handleKeyPress '' '' st =
     draw (st\<lparr>console := console st @ [[Str '' '']], rotAnim := \<not> rotAnim st\<rparr>)"
  by (simp add: handleKeyPress_def key_case_def Let_def changeRotAnim_def)

lemma direction_key:
  assumes "globals_allocated st"
  shows "globals_allocated (handleKeyPress ''r'' st)"
    and "globals_allocated (handleKeyPress ''R'' st)"
    and "\<not> rotDir (handleKeyPress ''r'' st)" and "rotDir (handleKeyPress ''R'' st)"
    and "joint (handleKeyPress ''r'' st) = joint st"
    and "joint (handleKeyPress ''R'' st) = joint st"
    and "rotSpeed (handleKeyPress ''r'' st) = rotSpeed st"
    and "rotSpeed (handleKeyPress ''R'' st) = rotSpeed st"
    and "rotAnim (handleKeyPress ''r'' st) = rotAnim st"
    and "rotAnim (handleKeyPress ''R'' st) = rotAnim st"
proof -
  have g: "globals_allocated (st\<lparr>console := console st @ [[Str ''r'']], rotDir := False\<rparr>)"
    "globals_allocated (st\<lparr>console := console st @ [[Str ''R'']], rotDir := True\<rparr>)"
    using assms by (simp_all add: globals_allocated_def)
  show "globals_allocated (handleKeyPress ''r'' st)"
    and "globals_allocated (handleKeyPress ''R'' st)"
    and "\<not> rotDir (handleKeyPress ''r'' st)" and "rotDir (handleKeyPress ''R'' st)"
    and "joint (handleKeyPress ''r'' st) = joint st"
    and "joint (handleKeyPress ''R'' st) = joint st"
    and "rotSpeed (handleKeyPress ''r'' st) = rotSpeed st"
    and "rotSpeed (handleKeyPress ''R'' st) = rotSpeed st"
    and "rotAnim (handleKeyPress ''r'' st) = rotAnim st"
    and "rotAnim (handleKeyPress ''R'' st) = rotAnim st"
    using globals_allocated_draw [OF g(1)] globals_allocated_draw [OF g(2)]
    by (simp_all add: handleKeyPress_direction draw_keeps [OF g(1)] draw_keeps [OF g(2)])
qed

lemma space_key:
  assumes "globals_allocated st"
  shows "globals_allocated (handleKeyPress '' '' st)"
    and "rotAnim (handleKeyPress '' '' st) = (\<not> rotAnim st)"
    and "joint (handleKeyPress '' '' st) = joint st"
    and "rotSpeed (handleKeyPress '' '' st) = rotSpeed st"
    and "rotDir (handleKeyPress '' '' st) = rotDir st"
proof -
  have g: "globals_allocated (st\<lparr>console := console st @ [[Str '' '']], rotAnim := \<not> rotAnim st\<rparr>)"
    using assms by (simp add: globals_allocated_def)
  show "globals_allocated (handleKeyPress '' '' st)"
    and "rotAnim (handleKeyPress '' '' st) = (\<not> rotAnim st)"
    and "joint (handleKeyPress '' '' st) = joint st"
    and "rotSpeed (handleKeyPress '' '' st) = rotSpeed st"
    and "rotDir (handleKeyPress '' '' st) = rotDir st"
    using globals_allocated_draw [OF g]
    by (simp_all add: handleKeyPress_space draw_keeps [OF g])
qed

text \<open>Frames while the animation is off change neither the rotor's angle nor its matrix.\<close>

lemma frames_off:
  assumes "globals_allocated st" and "\<not> rotAnim st"
  shows "globals_allocated ((animate ^^ n) st) \<and> \<not> rotAnim ((animate ^^ n) st)
       \<and> joint ((animate ^^ n) st) = joint st
       \<and> heap ((animate ^^ n) st) ! rotorMatrix = heap st ! rotorMatrix
       \<and> rotSpeed ((animate ^^ n) st) = rotSpeed st
       \<and> rotDir ((animate ^^ n) st) = rotDir st"
proof (induction n)
  case 0
  show ?case using assms by simp
next
  case (Suc n)
  then have g: "globals_allocated ((animate ^^ n) st)" and off: "\<not> rotAnim ((animate ^^ n) st)"
    by simp_all
  show ?case
    using animate_off [OF g off] Suc by simp
qed

text \<open>A walk from the initial state that comes back to the angle \<open>0\<close>.\<close>

lemma there_and_back:
  "rotor (joint (run [Key ''R'', Frame, Key ''r'', Frame] (init locs))) = 0"
proof -
  define st1 where "st1 = handleKeyPress ''R'' (init locs)"
  define st2 where "st2 = animate st1"
  define st3 where "st3 = handleKeyPress ''r'' st2"
  define st4 where "st4 = animate st3"
  have i: "rotAnim (init locs)" "rotSpeed (init locs) = 1" "rotor (joint (init locs)) = 0"
    by (simp_all add: init_def init_joint_def)
  have g1: "globals_allocated st1" and d1: "rotDir st1" and a1: "rotAnim st1"
    and s1: "rotSpeed st1 = 1" and r1: "rotor (joint st1) = 0"
    using direction_key [OF globals_allocated_init] i by (simp_all add: st1_def)
  have g2: "globals_allocated st2" and a2: "rotAnim st2"
    and s2: "rotSpeed st2 = 1" and r2: "rotor (joint st2) = 1"
    using animate_on [OF g1 a1] d1 s1 r1 by (simp_all add: st2_def dir_sign_def)
  have g3: "globals_allocated st3" and d3: "\<not> rotDir st3" and a3: "rotAnim st3"
    and s3: "rotSpeed st3 = 1" and r3: "rotor (joint st3) = 1"
    using direction_key [OF g2] a2 s2 r2 by (simp_all add: st3_def)
  have "rotor (joint st4) = 0"
    using animate_on(2) [OF g3 a3] d3 s3 r3 by (simp add: st4_def dir_sign_def)
  then show ?thesis by (simp add: st4_def st3_def st2_def st1_def)
qed

text \<open>The global matrices are allocated in every state the program reaches.\<close>

lemma reachable_globals_allocated: "globals_allocated (run is (init locs))"
  using rotor_invariant_run [OF globals_allocated_init init_rotor, of "is"] by simp

lemma attributes_found_012: "attributes_found (init locations_012)"
  by (simp add: attributes_found_def init_def locations_012_def)


section \<open>The claims\<close>




text \<open>
  C2. One pass of \<open>draw\<close>, on a state whose global matrices are allocated, calls \<open>push\<close>
  five times and \<open>pop\<close> five times, once each for the five parts, whether the shader has
  its attributes or not. Its stack is empty when it is created, before the first push, and
  empty again at the end, after the last pop. The pass writes no warning of the stack to
  the console: it writes nothing when the attributes are found, and otherwise the five
  lines of \<open>renderCube\<close> about the missing attribute. The check at the end of the pass
  reports any stack that is not empty: it writes "Warning: pops do not match pushes".
\<close>

theorem draw_pushes_and_pops_balance:
  assumes "globals_allocated st"
  shows "let pass = drop (length (events st)) (events (draw st))
         in length (filter is_Push pass) = 5
          \<and> length (filter is_Pop pass) = 5
          \<and> isEmpty (Stack_new :: ref Stack)
          \<and> is_Push (hd pass)
          \<and> is_Pop (last pass)
          \<and> isEmpty (fst (draw_stack st))
          \<and> console (draw st) =
               console st @ replicate (if attributes_found st then 0 else 5) (lost_line st)
          \<and> (attributes_found st \<longrightarrow> console (draw st) = console st)
          \<and> (\<not> isEmpty s \<longrightarrow>
               console (check_pops s st') =
                 console st' @ [[Str ''Warning: pops do not match pushes'']])"
proof -
  have "events (draw st) = events st @
      (if attributes_found st then pass_events (heap st) else pass_events_lost (heap st))"
    using draw_events [OF assms] .
  then show ?thesis
    using draw_stack_empty [OF assms] draw_console [OF assms]
    by (simp add: pass_events_def pass_events_lost_def Let_def isEmpty_def Stack_new_def
        check_pops_def)
qed

theorem draw_pushes_and_pops_balance_witness:
  "globals_allocated (init locations_012) \<and> attributes_found (init locations_012)
   \<and> length (filter is_Push (events (draw (init locations_012)))) = 5
   \<and> length (filter is_Pop (events (draw (init locations_012)))) = 5
   \<and> isEmpty (fst (draw_stack (init locations_012)))
   \<and> console (draw (init locations_012)) = []
   \<and> \<not> isEmpty (push turbineMatrix Stack_new)
   \<and> console (check_pops (push turbineMatrix Stack_new) (init locations_012))
       = [[Str ''Warning: pops do not match pushes'']]"
proof -
  have ev: "events (init locations_012) = []" and co: "console (init locations_012) = []"
    by (simp_all add: init_def)
  have ne: "\<not> isEmpty (push turbineMatrix Stack_new)"
    by (simp add: isEmpty_def push_def)
  show ?thesis
    using draw_pushes_and_pops_balance
            [OF globals_allocated_init, of locations_012 "push turbineMatrix Stack_new"
               "init locations_012"]
          globals_allocated_init attributes_found_012 ne
    by (simp add: Let_def ev co)
qed

text \<open>
  C3. The stack is last-in first-out. For every value \<open>m\<close> and every stack \<open>s\<close>: after
  \<open>push(m)\<close>, \<open>top()\<close> returns \<open>m\<close> (and, having no effect on the stack, leaves the
  depth at one more than before); \<open>pop()\<close> then returns \<open>m\<close>, brings the depth back and
  makes \<open>top()\<close> answer exactly as it did before the push. \<open>isEmpty()\<close> holds exactly
  when the depth is zero, so after any balanced sequence of calls on a fresh stack. The
  matrix that \<open>draw\<close> pushes, \<open>new Matrix4(s.top()).multiply(m)\<close>, is a new object: one
  cell is added to the heap, the reference returned is that cell, the cell holds the copy
  of the top of the stack (the identity when the stack is empty) times the matrix \<open>m\<close>
  refers to, and every matrix that existed, the one on top included, is as it was.
\<close>

theorem stack_is_lifo:
  "fst (top_stack (push m s)) = Some m
   \<and> t (push m s) = Suc (t s)
   \<and> fst (pop (push m s)) = Some m
   \<and> t (fst (snd (pop (push m s)))) = t s
   \<and> top_stack (fst (snd (pop (push m s)))) = top_stack s
   \<and> (isEmpty s \<longleftrightarrow> t s = 0)
   \<and> (balanced 0 cs \<longrightarrow> isEmpty (run_calls cs Stack_new))
   \<and> fst (top_times s' j st) = length (heap st)
   \<and> length (heap (snd (top_times s' j st))) = Suc (length (heap st))
   \<and> take (length (heap st)) (heap (snd (top_times s' j st))) = heap st
   \<and> (j < length (heap st) \<longrightarrow>
        heap (snd (top_times s' j st)) ! fst (top_times s' j st)
          = m4_multiply
              (case fst (top_stack s') of None \<Rightarrow> m4_identity | Some tp \<Rightarrow> heap st ! tp)
              (heap st ! j))"
proof -
  have a: "fst (top_stack (push m s)) = Some m"
    by (simp add: top_stack_def push_def js_get_js_set_same)
  have b: "fst (pop (push m s)) = Some m" "t (fst (snd (pop (push m s)))) = t s"
    by (simp_all add: pop_def push_def Let_def js_get_js_set_same)
  have c: "top_stack (fst (snd (pop (push m s)))) = top_stack s"
    by (simp add: pop_def push_def top_stack_def Let_def js_get_js_set_other)
  have d: "balanced 0 cs \<longrightarrow> isEmpty (run_calls cs Stack_new)"
    using balanced_depth[of Stack_new cs]
    by (simp add: Stack_new_def isEmpty_def)
  have e: "fst (top_times s' j st) = length (heap st)"
    "length (heap (snd (top_times s' j st))) = Suc (length (heap st))"
    "take (length (heap st)) (heap (snd (top_times s' j st))) = heap st"
    by (simp_all add: top_times_def Matrix4_new_def Matrix4_multiply_def split_def)
  have f: "j < length (heap st) \<longrightarrow>
        heap (snd (top_times s' j st)) ! fst (top_times s' j st)
          = m4_multiply
              (case fst (top_stack s') of None \<Rightarrow> m4_identity | Some tp \<Rightarrow> heap st ! tp)
              (heap st ! j)"
    by (simp add: top_times_def Matrix4_new_def Matrix4_multiply_def split_def nth_append)
  show ?thesis using a b c d e f by (simp add: t_push isEmpty_def)
qed

theorem stack_is_lifo_witness:
  "balanced 0 [Call_push (7 :: nat), Call_push 8, Call_pop, Call_pop]
   \<and> isEmpty (run_calls [Call_push (7 :: nat), Call_push 8, Call_pop, Call_pop] Stack_new)
   \<and> fst (top_stack (push (8 :: nat) (push 7 Stack_new))) = Some 8
   \<and> top_stack (fst (snd (pop (push (8 :: nat) (push 7 Stack_new))))) = (Some 7, [])
   \<and> baseMatrix < length (heap (init locations_012))
   \<and> fst (top_times (push turbineMatrix Stack_new) baseMatrix (init locations_012)) = 11
   \<and> heap (snd (top_times (push turbineMatrix Stack_new) baseMatrix (init locations_012))) ! 11
       = m4_multiply (heap (init locations_012) ! turbineMatrix)
           (heap (init locations_012) ! baseMatrix)
   \<and> take 11 (heap (snd (top_times (push turbineMatrix Stack_new) baseMatrix
         (init locations_012)))) = heap (init locations_012)"
proof -
  have len: "length (heap (init locations_012)) = 11" by (simp add: init_def)
  have tp: "fst (top_stack (push turbineMatrix (Stack_new :: ref Stack))) = Some turbineMatrix"
    by (simp add: top_stack_def push_def js_get_js_set_same)
  show ?thesis
    using stack_is_lifo [of "8 :: nat" "push 7 Stack_new"
        "[Call_push 7, Call_push 8, Call_pop, Call_pop]"
        "push turbineMatrix Stack_new" baseMatrix "init locations_012"]
      global_refs_valid(2) [OF globals_allocated_init, of locations_012]
    by (auto simp: top_stack_def push_def pop_def Let_def Stack_new_def js_set_def js_get_def
        isEmpty_def len tp)
qed

text \<open>
  C4. On an empty stack, \<open>top()\<close> and \<open>pop()\<close> return (nothing is thrown): each returns
  \<open>undefined\<close>, writes the line "Warning: stack underflow" to the console, and leaves the
  stack, its depth and its elements, as it was.
\<close>

theorem underflow_is_reported_and_atomic:
  assumes "isEmpty s"
  shows "fst (top_stack s) = None
       \<and> [Str ''Warning: stack underflow''] \<in> set (snd (top_stack s))
       \<and> fst (pop s) = None
       \<and> [Str ''Warning: stack underflow''] \<in> set (snd (snd (pop s)))
       \<and> fst (snd (pop s)) = s"
  using assms by (simp add: isEmpty_def top_stack_def pop_def)

theorem underflow_is_reported_and_atomic_witness:
  "isEmpty (Stack_new :: nat Stack)
   \<and> fst (top_stack (Stack_new :: nat Stack)) = None
   \<and> snd (top_stack (Stack_new :: nat Stack))
       = [[Str ''top = '', Num 0], [Str ''Warning: stack underflow'']]
   \<and> pop (Stack_new :: nat Stack)
       = (None, Stack_new, [[Str ''Warning: stack underflow'']])"
  using underflow_is_reported_and_atomic [of "Stack_new :: nat Stack"]
  by (simp add: isEmpty_def Stack_new_def top_stack_def pop_def)

text \<open>
  C5. In every state reached from the initial state by any sequence of animation frames and
  keys (the keys for direction and speed among them), the rotor's matrix is a function of
  the rotor's angle alone: it is the translation to \<open>(0, 0, 3)\<close> times the rotation by
  \<open>joint.rotor\<close> degrees, as \<open>rotate\<close> builds it from scratch in a running frame. So two
  histories that end at the same angle end with the same matrix.
\<close>

theorem rotor_matrix_from_angle:
  "heap (run is (init locs)) ! rotorMatrix = rotor_of_angle (rotor (joint (run is (init locs))))
   \<and> (rotor (joint (run is (init locs))) = rotor (joint (run is' (init locs))) \<longrightarrow>
        heap (run is (init locs)) ! rotorMatrix = heap (run is' (init locs)) ! rotorMatrix)
   \<and> rotor_of_angle a =
       m4_multiply (m4_setTranslate 0 0 3)
         (m4_translate (m4_rotate (m4_setTranslate 0 0 0) a 0 0 1) 0 0 0)"
  using rotor_invariant_run [OF globals_allocated_init init_rotor, of "is"]
    rotor_invariant_run [OF globals_allocated_init init_rotor, of is']
  by (simp add: nose_rotation rotor_of_angle_def)

theorem rotor_matrix_from_angle_witness:
  "rotor (joint (run [Key ''R'', Frame, Key ''r'', Frame] (init locations_012))) = rotor (joint (run [] (init locations_012)))
   \<and> heap (run [Key ''R'', Frame, Key ''r'', Frame] (init locations_012)) ! rotorMatrix
       = heap (run [] (init locations_012)) ! rotorMatrix
   \<and> heap (run [Key ''R'', Frame, Key ''r'', Frame] (init locations_012)) ! rotorMatrix = rotor_of_angle 0"
proof -
  have eq: "rotor (joint (run [Key ''R'', Frame, Key ''r'', Frame] (init locations_012)))
      = rotor (joint (run [] (init locations_012)))"
    using there_and_back by (simp add: init_def init_joint_def)
  note T = rotor_matrix_from_angle
             [of "[Key ''R'', Frame, Key ''r'', Frame]" locations_012 "[]" 0]
  from T have a: "heap (run [Key ''R'', Frame, Key ''r'', Frame] (init locations_012)) ! rotorMatrix
      = rotor_of_angle (rotor (joint (run [Key ''R'', Frame, Key ''r'', Frame] (init locations_012))))"
    by blast
  from T eq have b: "heap (run [Key ''R'', Frame, Key ''r'', Frame] (init locations_012)) ! rotorMatrix
      = heap (run [] (init locations_012)) ! rotorMatrix"
    by blast
  from a have c: "heap (run [Key ''R'', Frame, Key ''r'', Frame] (init locations_012)) ! rotorMatrix
      = rotor_of_angle 0"
    by (simp only: there_and_back)
  from eq b c show ?thesis by blast
qed

text \<open>
  C6. While the animation runs, a frame changes \<open>joint.rotor\<close> by exactly the speed times
  the direction, \<open>+1\<close> when \<open>rotDir\<close> is set and \<open>-1\<close> when it is not, both for
  \<open>rotate\<close> alone and for the whole frame \<open>rotate(); draw()\<close>. Reversing the direction
  (key \<open>r\<close> when it is set, key \<open>R\<close> when it is not) flips the sign of the change of the
  next frame: at speed \<open>3\<close> with the direction set a frame adds \<open>3\<close>, and after key \<open>r\<close>
  the next frame adds \<open>-3\<close>.
\<close>

theorem frame_advances_rotor:
  assumes "globals_allocated st" and "rotAnim st"
  shows "rotor (joint (rotate_anim st)) - rotor (joint st) = rotSpeed st * dir_sign (rotDir st)
       \<and> rotor (joint (animate st)) - rotor (joint st) = rotSpeed st * dir_sign (rotDir st)
       \<and> (dir_sign (rotDir st) = 1 \<or> dir_sign (rotDir st) = - 1)
       \<and> (let st' = handleKeyPress (if rotDir st then ''r'' else ''R'') st
          in rotor (joint (animate st')) - rotor (joint st')
               = - (rotor (joint (animate st)) - rotor (joint st)))
       \<and> (rotSpeed st = 3 \<and> rotDir st \<longrightarrow>
            rotor (joint (animate st)) - rotor (joint st) = 3
          \<and> rotor (joint (animate (handleKeyPress ''r'' st)))
               - rotor (joint (handleKeyPress ''r'' st)) = - 3)"
proof -
  have a: "rotor (joint (rotate_anim st)) - rotor (joint st)
      = rotSpeed st * dir_sign (rotDir st)"
    by (simp add: rotate_anim_on [OF assms] Let_def)
  have b: "rotor (joint (animate st)) - rotor (joint st) = rotSpeed st * dir_sign (rotDir st)"
    using animate_on(2) [OF assms] by simp
  have c: "rotor (joint (animate (handleKeyPress ''r'' st)))
      - rotor (joint (handleKeyPress ''r'' st)) = - rotSpeed st"
    using animate_on(2) [of "handleKeyPress ''r'' st"] direction_key [OF assms(1)] assms(2)
    by (simp add: dir_sign_def)
  have d: "rotor (joint (animate (handleKeyPress ''R'' st)))
      - rotor (joint (handleKeyPress ''R'' st)) = rotSpeed st"
    using animate_on(2) [of "handleKeyPress ''R'' st"] direction_key [OF assms(1)] assms(2)
    by (simp add: dir_sign_def)
  show ?thesis
    using a b c d by (simp add: Let_def dir_sign_def)
qed

theorem frame_advances_rotor_witness:
  "globals_allocated ((init locations_012)\<lparr>rotSpeed := 3, rotDir := True\<rparr>)
   \<and> rotAnim ((init locations_012)\<lparr>rotSpeed := 3, rotDir := True\<rparr>)
   \<and> rotor (joint (animate ((init locations_012)\<lparr>rotSpeed := 3, rotDir := True\<rparr>))) = 3
   \<and> rotor (joint (animate (handleKeyPress ''r'' ((init locations_012)\<lparr>rotSpeed := 3, rotDir := True\<rparr>))))
       = - 3"
proof -
  define st where "st = (init locations_012)\<lparr>rotSpeed := 3, rotDir := True\<rparr>"
  have g: "globals_allocated st" and a: "rotAnim st"
    and f: "rotSpeed st = 3" "rotDir st" "rotor (joint st) = 0"
    by (simp_all add: st_def init_def init_joint_def globals_allocated_def)
  have k: "rotor (joint (handleKeyPress ''r'' st)) = 0"
    using direction_key(5) [OF g] f by simp
  show ?thesis
    using frame_advances_rotor [OF g a] g a f k
    unfolding st_def [symmetric] by simp
qed

text \<open>
  C7. When the animation is running and is toggled off (the space key), any number of
  frames after that leave the rotor's angle and the rotor's matrix as they were. Toggled on
  again, the next frame changes the angle by exactly the speed times the sign of the
  direction.
\<close>

theorem paused_frames_do_nothing:
  assumes "globals_allocated st" and "rotAnim st"
  shows "let paused = (animate ^^ n) (handleKeyPress '' '' st);
             resumed = handleKeyPress '' '' paused
         in rotor (joint paused) = rotor (joint st)
          \<and> heap paused ! rotorMatrix = heap st ! rotorMatrix
          \<and> \<not> rotAnim paused
          \<and> rotAnim resumed
          \<and> rotor (joint (animate resumed))
               = rotor (joint st) + rotSpeed st * dir_sign (rotDir st)"
proof -
  define off where "off = handleKeyPress '' '' st"
  define paused where "paused = (animate ^^ n) off"
  define resumed where "resumed = handleKeyPress '' '' paused"
  have o: "globals_allocated off" "\<not> rotAnim off" "joint off = joint st"
    "rotSpeed off = rotSpeed st" "rotDir off = rotDir st"
    using space_key [OF assms(1)] assms(2) by (simp_all add: off_def)
  have om: "heap off ! rotorMatrix = heap st ! rotorMatrix"
    using handleKeyPress_rotor(3) [OF assms(1)] by (simp add: off_def)
  have p: "globals_allocated paused" "\<not> rotAnim paused" "joint paused = joint st"
    "heap paused ! rotorMatrix = heap st ! rotorMatrix"
    "rotSpeed paused = rotSpeed st" "rotDir paused = rotDir st"
    using frames_off [OF o(1,2), of n] o om by (simp_all add: paused_def)
  have r: "globals_allocated resumed" "rotAnim resumed" "joint resumed = joint st"
    "rotSpeed resumed = rotSpeed st" "rotDir resumed = rotDir st"
    using space_key [OF p(1)] p by (simp_all add: resumed_def)
  have "rotor (joint (animate resumed)) = rotor (joint st) + rotSpeed st * dir_sign (rotDir st)"
    using animate_on(2) [OF r(1,2)] r by simp
  then show ?thesis
    using p r unfolding Let_def resumed_def paused_def off_def by simp
qed

theorem paused_frames_do_nothing_witness:
  "globals_allocated (init locations_012) \<and> rotAnim (init locations_012)
   \<and> rotor (joint ((animate ^^ 10) (handleKeyPress '' '' (init locations_012)))) = 0
   \<and> heap ((animate ^^ 10) (handleKeyPress '' '' (init locations_012))) ! rotorMatrix
       = heap (init locations_012) ! rotorMatrix
   \<and> rotor (joint (animate (handleKeyPress '' ''
         ((animate ^^ 10) (handleKeyPress '' '' (init locations_012)))))) = - 1"
proof -
  have a: "rotAnim (init locations_012)" and f: "rotor (joint (init locations_012)) = 0" "rotSpeed (init locations_012) = 1" "\<not> rotDir (init locations_012)"
    by (simp_all add: init_def init_joint_def)
  show ?thesis
    using paused_frames_do_nothing [OF globals_allocated_init a, of 10]
      globals_allocated_init a f
    by (simp add: Let_def dir_sign_def)
qed

text \<open>
  C8. \<open>changeRotSpeed(n)\<close> sets the speed to \<open>s + n\<close> when that is at least \<open>1\<close> and to
  \<open>1\<close> otherwise, whatever the speed \<open>s\<close> and the adjustment \<open>n\<close>; so the speed is at
  least \<open>1\<close> afterwards. From speed \<open>1\<close>, an adjustment of \<open>-5\<close> gives \<open>1\<close>. Nothing is
  written to the console and nothing else in the state changes.
\<close>

theorem speed_is_clamped_at_one:
  "rotSpeed (changeRotSpeed n st) = (if 1 \<le> rotSpeed st + n then rotSpeed st + n else 1)
   \<and> 1 \<le> rotSpeed (changeRotSpeed n st)
   \<and> rotSpeed (changeRotSpeed (- 5) (st\<lparr>rotSpeed := 1\<rparr>)) = 1
   \<and> rotSpeed (changeRotSpeed (- 5) (init locs)) = 1
   \<and> console (changeRotSpeed n st) = console st
   \<and> changeRotSpeed n st = st\<lparr>rotSpeed := rotSpeed (changeRotSpeed n st)\<rparr>"
  by (simp add: changeRotSpeed_def init_def)

text \<open>
  C9. In the initial state every joint angle is \<open>0\<close> but \<open>shoulder\<close> and \<open>arm\<close>, which
  are \<open>45\<close>. The key \<open>t\<close> then sets \<open>joint.turbine\<close> to \<open>15\<close> and rebuilds
  \<open>turbineMatrix\<close> as the translation by \<open>(0, 0, 0)\<close> times the rotation by \<open>15\<close> degrees
  about the y axis. Every other joint angle and every other matrix (the matrices of base,
  generator, rotor and blade among them) stays as it was.
\<close>

theorem key_t_turns_the_turbine:
  "joint (init locs) = \<lparr>turbine = 0, base = 0, generator = 0, rotor = 0, blade = 0,
                  shoulder = 45, arm = 45, hand = 0\<rparr>
   \<and> joint (handleKeyPress ''t'' (init locs)) = (joint (init locs))\<lparr>turbine := 15\<rparr>
   \<and> heap (handleKeyPress ''t'' (init locs)) ! turbineMatrix
       = m4_rotate (m4_setTranslate 0 0 0) 15 0 1 0
   \<and> heap (handleKeyPress ''t'' (init locs)) ! turbineMatrix
       = m4_multiply (m4_setTranslate 0 0 0) (m4_setRotate 15 0 1 0)
   \<and> heap (handleKeyPress ''t'' (init locs)) ! baseMatrix = heap (init locs) ! baseMatrix
   \<and> heap (handleKeyPress ''t'' (init locs)) ! generatorMatrix = heap (init locs) ! generatorMatrix
   \<and> heap (handleKeyPress ''t'' (init locs)) ! rotorMatrix = heap (init locs) ! rotorMatrix
   \<and> heap (handleKeyPress ''t'' (init locs)) ! bladeMatrix = heap (init locs) ! bladeMatrix
   \<and> take 11 (heap (handleKeyPress ''t'' (init locs)))
       = (heap (init locs))[turbineMatrix := m4_multiply (m4_setTranslate 0 0 0) (m4_setRotate 15 0 1 0)]"
proof -
  define st1 where "st1 = (init locs)\<lparr>console := console (init locs) @ [[Str ''t'']],
      joint := (joint (init locs))\<lparr>turbine := 15\<rparr>,
      heap := (heap (init locs))[turbineMatrix := m4_rotate (m4_setTranslate 0 0 0) 15 0 1 0]\<rparr>"
  have t0: "turbine (joint (init locs)) = 0" "length (heap (init locs)) = 11"
    by (simp_all add: init_def init_joint_def)
  have k: "handleKeyPress ''t'' (init locs) = draw st1"
    using t0 by (simp add: handleKeyPress_def key_case_def Let_def Matrix4_rotate_def
        Matrix4_setTranslate_def st1_def turbineMatrix_def)
  have g: "globals_allocated st1"
    using t0 by (simp add: st1_def globals_allocated_def)
  have len: "length (heap st1) = 11"
    using t0 by (simp add: st1_def)
  have tk: "take 11 (heap (draw st1)) = heap st1"
    using draw_keeps(6) [OF g] by (simp add: len)
  have cell: "i < 11 \<Longrightarrow> heap (draw st1) ! i = heap st1 ! i" for i
    using draw_keeps_cell [OF g, of i] by (simp add: len)
  have j: "joint (draw st1) = (joint (init locs))\<lparr>turbine := 15\<rparr>"
    using draw_keeps(1) [OF g] by (simp add: st1_def)
  show ?thesis
    using t0
    by (simp add: k j tk cell refs_def)
       (simp add: st1_def init_def init_joint_def m4_rotate_def refs_def)
qed

text \<open>
  C10. \<open>scaleMoinho(factor)\<close> multiplies each of the five local matrices from the right by
  the uniform scaling by \<open>factor\<close>, so a second call multiplies again. It leaves the joint
  angles, the five joint matrices and the model matrix, the speed, the direction and the
  running flag as they were. The keys ArrowUp and ArrowDown call it with \<open>1.1\<close> and
  \<open>0.9\<close>, then draw.
\<close>

theorem scaleMoinho_scales_the_local_matrices:
  assumes "globals_allocated st"
  shows "let st' = scaleMoinho f st; S = m4_setScale f f f
         in heap st' ! turbineMatrixLocal = m4_scale (heap st ! turbineMatrixLocal) f f f
          \<and> heap st' ! baseMatrixLocal = m4_scale (heap st ! baseMatrixLocal) f f f
          \<and> heap st' ! generatorMatrixLocal = m4_scale (heap st ! generatorMatrixLocal) f f f
          \<and> heap st' ! rotorMatrixLocal = m4_scale (heap st ! rotorMatrixLocal) f f f
          \<and> heap st' ! bladeMatrixLocal = m4_scale (heap st ! bladeMatrixLocal) f f f
          \<and> heap st' ! turbineMatrixLocal = m4_multiply (heap st ! turbineMatrixLocal) S
          \<and> heap st' ! baseMatrixLocal = m4_multiply (heap st ! baseMatrixLocal) S
          \<and> heap st' ! generatorMatrixLocal = m4_multiply (heap st ! generatorMatrixLocal) S
          \<and> heap st' ! rotorMatrixLocal = m4_multiply (heap st ! rotorMatrixLocal) S
          \<and> heap st' ! bladeMatrixLocal = m4_multiply (heap st ! bladeMatrixLocal) S
          \<and> heap (scaleMoinho g st') ! turbineMatrixLocal
              = m4_multiply (m4_multiply (heap st ! turbineMatrixLocal) S) (m4_setScale g g g)
          \<and> heap (scaleMoinho g st') ! baseMatrixLocal
              = m4_multiply (m4_multiply (heap st ! baseMatrixLocal) S) (m4_setScale g g g)
          \<and> heap (scaleMoinho g st') ! generatorMatrixLocal
              = m4_multiply (m4_multiply (heap st ! generatorMatrixLocal) S) (m4_setScale g g g)
          \<and> heap (scaleMoinho g st') ! rotorMatrixLocal
              = m4_multiply (m4_multiply (heap st ! rotorMatrixLocal) S) (m4_setScale g g g)
          \<and> heap (scaleMoinho g st') ! bladeMatrixLocal
              = m4_multiply (m4_multiply (heap st ! bladeMatrixLocal) S) (m4_setScale g g g)
          \<and> m4_multiply (m4_multiply m S) (m4_setScale g g g)
              = m4_multiply m (m4_setScale (f * g) (f * g) (f * g))
          \<and> heap st' ! turbineMatrix = heap st ! turbineMatrix
          \<and> heap st' ! baseMatrix = heap st ! baseMatrix
          \<and> heap st' ! generatorMatrix = heap st ! generatorMatrix
          \<and> heap st' ! rotorMatrix = heap st ! rotorMatrix
          \<and> heap st' ! bladeMatrix = heap st ! bladeMatrix
          \<and> heap st' ! modelMatrix = heap st ! modelMatrix
          \<and> joint st' = joint st \<and> rotSpeed st' = rotSpeed st
          \<and> rotDir st' = rotDir st \<and> rotAnim st' = rotAnim st
          \<and> handleKeyPress ''ArrowUp'' st
              = draw (scaleMoinho (11 / 10) (st\<lparr>console := console st @ [[Str ''ArrowUp'']]\<rparr>))
          \<and> handleKeyPress ''ArrowDown'' st
              = draw (scaleMoinho (9 / 10) (st\<lparr>console := console st @ [[Str ''ArrowDown'']]\<rparr>))"
proof -
  have len: "11 \<le> length (heap st)"
    using assms by (simp add: globals_allocated_def)
  have keys: "handleKeyPress ''ArrowUp'' st
      = draw (scaleMoinho (11 / 10) (st\<lparr>console := console st @ [[Str ''ArrowUp'']]\<rparr>))"
    "handleKeyPress ''ArrowDown'' st
      = draw (scaleMoinho (9 / 10) (st\<lparr>console := console st @ [[Str ''ArrowDown'']]\<rparr>))"
    by (simp_all add: handleKeyPress_def key_case_def Let_def)
  have prod: "m4_multiply (m4_multiply m (m4_setScale f f f)) (m4_setScale g g g)
      = m4_multiply m (m4_setScale (f * g) (f * g) (f * g))"
    by (simp add: m4_multiply_assoc m4_setScale_product)
  have cells: "heap (scaleMoinho k s) ! turbineMatrixLocal = m4_scale (heap s ! turbineMatrixLocal) k k k"
    "heap (scaleMoinho k s) ! baseMatrixLocal = m4_scale (heap s ! baseMatrixLocal) k k k"
    "heap (scaleMoinho k s) ! generatorMatrixLocal = m4_scale (heap s ! generatorMatrixLocal) k k k"
    "heap (scaleMoinho k s) ! rotorMatrixLocal = m4_scale (heap s ! rotorMatrixLocal) k k k"
    "heap (scaleMoinho k s) ! bladeMatrixLocal = m4_scale (heap s ! bladeMatrixLocal) k k k"
    "length (heap (scaleMoinho k s)) = length (heap s)"
    if "11 \<le> length (heap s)" for k s
    using that by (simp_all add: scaleMoinho_def Matrix4_scale_def refs_def)
  have others: "heap (scaleMoinho f st) ! turbineMatrix = heap st ! turbineMatrix"
    "heap (scaleMoinho f st) ! baseMatrix = heap st ! baseMatrix"
    "heap (scaleMoinho f st) ! generatorMatrix = heap st ! generatorMatrix"
    "heap (scaleMoinho f st) ! rotorMatrix = heap st ! rotorMatrix"
    "heap (scaleMoinho f st) ! bladeMatrix = heap st ! bladeMatrix"
    "heap (scaleMoinho f st) ! modelMatrix = heap st ! modelMatrix"
    "joint (scaleMoinho f st) = joint st" "rotSpeed (scaleMoinho f st) = rotSpeed st"
    "rotDir (scaleMoinho f st) = rotDir st" "rotAnim (scaleMoinho f st) = rotAnim st"
    using len by (simp_all add: scaleMoinho_def Matrix4_scale_def refs_def)
  have len': "11 \<le> length (heap (scaleMoinho f st))"
    using cells(6) [OF len, of f] len by simp
  show ?thesis
    unfolding Let_def
    by (simp only: cells(1-5) [OF len'] cells(1-5) [OF len] others keys prod
        m4_scale_multiply simp_thms)
qed

theorem scaleMoinho_scales_the_local_matrices_witness:
  "globals_allocated (init locations_012)
   \<and> heap (scaleMoinho (11 / 10) (init locations_012)) ! turbineMatrixLocal
       = m4_multiply (m4_setScale 2 20 2) (m4_setScale (11 / 10) (11 / 10) (11 / 10))
   \<and> heap (scaleMoinho (11 / 10) (init locations_012)) ! rotorMatrix = heap (init locations_012) ! rotorMatrix
   \<and> joint (scaleMoinho (11 / 10) (init locations_012)) = joint (init locations_012)"
proof -
  have c: "heap (init locations_012) ! turbineMatrixLocal = m4_setScale 2 20 2"
    by (simp add: init_def turbineMatrixLocal_def)
  show ?thesis
    using scaleMoinho_scales_the_local_matrices [OF globals_allocated_init, of "11 / 10"]
      globals_allocated_init c
    by (simp add: Let_def m4_scale_multiply)
qed

end
